theory Spec2Isabelle
  imports Complex_Main "HOL-Library.Multiset"
begin

section \<open>Strings of code points and the Unicode tables\<close>

text \<open>
  The engine of \<^verbatim>\<open>app.py\<close> works on Python 3 \<^verbatim>\<open>str\<close> values: sequences of Unicode code
  points.  A code point is a natural number and a string a list of them; \<open>ustr\<close> writes
  an ASCII literal as such a list.
\<close>

type_synonym code_point = nat

type_synonym ustring = "code_point list"

definition ustr :: "string \<Rightarrow> ustring" where
  "ustr s = map of_char s"

text \<open>
  What the interpreter looks up in its Unicode database is a parameter of the model:
  \<^item> \<open>is_whitespace\<close>: the characters \<^verbatim>\<open>\s\<close> matches and \<^verbatim>\<open>str.strip\<close> removes
    (\<^verbatim>\<open>Py_UNICODE_ISSPACE\<close>);
  \<^item> \<open>is_alnum\<close>: \<^verbatim>\<open>Py_UNICODE_ISALNUM\<close>; \<^verbatim>\<open>\w\<close> matches these and the underscore;
  \<^item> \<open>to_lower_full\<close>: the lowercase mapping of one character, which may be several
    characters;
  \<^item> \<open>is_cased\<close>, \<open>is_case_ignorable\<close>: the two properties that decide how a capital
    sigma is lowered.
\<close>

record unicode =
  is_whitespace :: "code_point \<Rightarrow> bool"
  is_alnum :: "code_point \<Rightarrow> bool"
  to_lower_full :: "code_point \<Rightarrow> code_point list"
  is_cased :: "code_point \<Rightarrow> bool"
  is_case_ignorable :: "code_point \<Rightarrow> bool"

definition is_space :: "unicode \<Rightarrow> code_point \<Rightarrow> bool" where
  "is_space U c = is_whitespace U c"

definition is_word :: "unicode \<Rightarrow> code_point \<Rightarrow> bool" where
  "is_word U c = (is_alnum U c \<or> c = 95)"

text \<open>
  \<^verbatim>\<open>s.lower()\<close>.  Every character is replaced by its lowercase mapping, except the
  capital sigma U+03A3: it becomes the final sigma U+03C2 when, skipping case-ignorable
  characters, a cased character precedes it and none follows it, and the small sigma
  U+03C3 otherwise.  \<open>lower_from U left s\<close> lowers \<open>s\<close>, the text that follows the
  characters \<open>left\<close> (the nearest first).
\<close>

definition next_is_cased :: "unicode \<Rightarrow> ustring \<Rightarrow> bool" where
  "next_is_cased U xs =
     (case dropWhile (is_case_ignorable U) xs of [] \<Rightarrow> False | c # _ \<Rightarrow> is_cased U c)"

definition handle_capital_sigma :: "unicode \<Rightarrow> ustring \<Rightarrow> ustring \<Rightarrow> code_point" where
  "handle_capital_sigma U left right =
     (if next_is_cased U left \<and> \<not> next_is_cased U right then 0x3C2 else 0x3C3)"

fun lower_from :: "unicode \<Rightarrow> ustring \<Rightarrow> ustring \<Rightarrow> ustring" where
  "lower_from U left [] = []"
| "lower_from U left (c # cs) =
     (if c = 0x3A3 then [handle_capital_sigma U left cs] else to_lower_full U c)
     @ lower_from U (c # left) cs"

definition str_lower :: "unicode \<Rightarrow> ustring \<Rightarrow> ustring" where
  "str_lower U s = lower_from U [] s"

text \<open>\<^verbatim>\<open>s.strip()\<close>: leading and trailing whitespace removed.\<close>

definition str_strip :: "unicode \<Rightarrow> ustring \<Rightarrow> ustring" where
  "str_strip U s = rev (dropWhile (is_space U) (rev (dropWhile (is_space U) s)))"

text \<open>\<^verbatim>\<open>re.sub(r'[^\w\s-]', '', s)\<close>: every character that is not a word character,
  whitespace or the hyphen U+002D is deleted.\<close>

definition is_skill_char :: "unicode \<Rightarrow> code_point \<Rightarrow> bool" where
  "is_skill_char U c = (is_word U c \<or> is_space U c \<or> c = 45)"

definition sub_non_skill_chars :: "unicode \<Rightarrow> ustring \<Rightarrow> ustring" where
  "sub_non_skill_chars U s = filter (is_skill_char U) s"

text \<open>\<^verbatim>\<open>re.sub(r'\s+', ' ', s)\<close>: every maximal run of whitespace becomes one space.\<close>

function sub_ws_runs :: "unicode \<Rightarrow> ustring \<Rightarrow> ustring" where
  "sub_ws_runs U [] = []"
| "sub_ws_runs U (c # cs) =
     (if is_space U c then 32 # sub_ws_runs U (dropWhile (is_space U) cs)
      else c # sub_ws_runs U cs)"
  by pat_completeness auto
termination
  by (relation "measure (\<lambda>(U, s). length s)") (auto simp: length_dropWhile_le less_Suc_eq_le)

text \<open>\<^verbatim>\<open>re.sub(r'[^\w\s]', ' ', s)\<close>: every character that is neither a word character nor
  whitespace becomes a space.\<close>

definition sub_punct_space :: "unicode \<Rightarrow> ustring \<Rightarrow> ustring" where
  "sub_punct_space U s = map (\<lambda>c. if is_word U c \<or> is_space U c then c else 32) s"

subsection \<open>\<^verbatim>\<open>normalize_skill\<close>\<close>

text \<open>
  \<^verbatim>\<open>
  def normalize_skill(skill):
      try:
          skill = re.sub(r'[^\w\s-]', '', skill.lower())
          return re.sub(r'\s+', ' ', skill).strip()
      except Exception as e:
          raise Exception(f"Skill normalization error: {str(e)}")
  \<close>
  On a string none of the three calls raises, so the handler is never entered and the
  function is total.
\<close>

definition normalize_skill :: "unicode \<Rightarrow> ustring \<Rightarrow> ustring" where
  "normalize_skill U skill =
     str_strip U (sub_ws_runs U (sub_non_skill_chars U (str_lower U skill)))"

section \<open>Numbers\<close>

text \<open>
  The scores are binary floating-point numbers.  A number is modelled by the real it
  denotes, and the two places where the interpreter rounds are parameters of the model:
  \<^item> \<open>fl\<close>: the rounding of an exact sum, product or quotient, or of a decimal literal,
    to the nearest floating-point number;
  \<^item> \<open>round2\<close>: \<^verbatim>\<open>round(x, 2)\<close>, which for a Python \<^verbatim>\<open>float\<close> and for a \<^verbatim>\<open>numpy.float64\<close>
    (the type of a computed similarity) is carried out by different code.
\<close>

datatype number_kind = Python_float | Numpy_float

record numerics =
  fl :: "real \<Rightarrow> real"
  round2 :: "number_kind \<Rightarrow> real \<Rightarrow> real"

definition fadd :: "numerics \<Rightarrow> real \<Rightarrow> real \<Rightarrow> real" where
  "fadd N a b = fl N (a + b)"

definition fmul :: "numerics \<Rightarrow> real \<Rightarrow> real \<Rightarrow> real" where
  "fmul N a b = fl N (a * b)"

definition fdiv :: "numerics \<Rightarrow> real \<Rightarrow> real \<Rightarrow> real" where
  "fdiv N a b = fl N (a / b)"

section \<open>\<^verbatim>\<open>calculate_match\<close>\<close>

subsection \<open>Splitting, joining, searching\<close>

text \<open>\<^verbatim>\<open>s.split(',')\<close>: the pieces between the commas (U+002C); never the empty list.\<close>

fun split_comma :: "ustring \<Rightarrow> ustring list" where
  "split_comma [] = [[]]"
| "split_comma (c # cs) =
     (if c = 44 then [] # split_comma cs
      else (case split_comma cs of [] \<Rightarrow> [[c]] | p # ps \<Rightarrow> (c # p) # ps))"

text \<open>\<^verbatim>\<open>', '.join(xs)\<close>\<close>

fun comma_join :: "ustring list \<Rightarrow> ustring" where
  "comma_join [] = []"
| "comma_join [x] = x"
| "comma_join (x # y # ys) = x @ [44, 32] @ comma_join (y # ys)"

text \<open>
  \<^verbatim>\<open>re.search(rf'\b{re.escape(skill)}\b', cv_clean)\<close>.  The escaped skill matches itself
  character by character, and \<^verbatim>\<open>\b\<close> holds between two positions exactly when one side is
  a word character and the other is not, the two ends of the text counting as non-word.
  \<open>search_from U prev skill rest\<close> looks for a match that starts in \<open>rest\<close>, the text
  after the character \<open>prev\<close>.
\<close>

definition word_opt :: "unicode \<Rightarrow> code_point option \<Rightarrow> bool" where
  "word_opt U p = (case p of None \<Rightarrow> False | Some c \<Rightarrow> is_word U c)"

definition first_opt :: "ustring \<Rightarrow> code_point option" where
  "first_opt s = (case s of [] \<Rightarrow> None | c # _ \<Rightarrow> Some c)"

definition match_here :: "unicode \<Rightarrow> code_point option \<Rightarrow> ustring \<Rightarrow> ustring \<Rightarrow> bool" where
  "match_here U prev skill rest =
     (take (length skill) rest = skill
      \<and> word_opt U prev \<noteq> word_opt U (first_opt rest)
      \<and> word_opt U (if skill = [] then prev else Some (last skill))
          \<noteq> word_opt U (first_opt (drop (length skill) rest)))"

fun search_from :: "unicode \<Rightarrow> code_point option \<Rightarrow> ustring \<Rightarrow> ustring \<Rightarrow> bool" where
  "search_from U prev skill [] = match_here U prev skill []"
| "search_from U prev skill (c # cs) =
     (match_here U prev skill (c # cs) \<or> search_from U (Some c) skill cs)"

definition search_whole_word :: "unicode \<Rightarrow> ustring \<Rightarrow> ustring \<Rightarrow> bool" where
  "search_whole_word U skill body = search_from U None skill body"

subsection \<open>The scorer\<close>

text \<open>
  The dictionary that \<^verbatim>\<open>calculate_match\<close> returns.  \<open>found_skills\<close> and
  \<open>missing_skills\<close> hold what the source hands to \<^verbatim>\<open>', '.join\<close>: the list
  \<^verbatim>\<open>found_skills\<close>, and the set \<^verbatim>\<open>set(skills_list) - set(found_skills)\<close>, which
  \<^verbatim>\<open>list(...)\<close> enumerates in an order Python leaves open.
\<close>

record match_result =
  total_score :: real
  jd_match :: real
  skills_match :: real
  missing_skills :: "ustring set"
  found_skills :: "ustring list"


text \<open>
  \<^verbatim>\<open>skills_list = [normalize_skill(skill.strip())
                 for skill in required_skills.split(',') if skill.strip()]\<close>
\<close>

definition skills_list_of :: "unicode \<Rightarrow> ustring \<Rightarrow> ustring list" where
  "skills_list_of U required_skills =
     map (\<lambda>skill. normalize_skill U (str_strip U skill))
       (filter (\<lambda>skill. str_strip U skill \<noteq> []) (split_comma required_skills))"

text \<open>
  The similarity of the job description and the candidate text is computed by the
  library calls \<^verbatim>\<open>TfidfVectorizer(stop_words='english', min_df=1).fit_transform\<close> and
  \<^verbatim>\<open>cosine_similarity\<close>.  They are a parameter \<open>tfidf_cosine\<close> of the model, applied to
  \<^verbatim>\<open>jd_clean\<close> and \<^verbatim>\<open>cv_clean\<close>; \<open>None\<close> stands for a call that raises.
  \<^verbatim>\<open>
  jd_match = 0
  if jd_clean.strip() and cv_clean.strip():
      try:
          ...
          jd_match = cosine_similarity(tfidf_matrix[0:1], tfidf_matrix[1:2])[0][0]
      except Exception as e:
          jd_match = 0
  \<close>
  \<open>similarity\<close> is the computed \<^verbatim>\<open>numpy.float64\<close>, or \<open>None\<close> when \<^verbatim>\<open>jd_match\<close> stays the
  integer 0.
\<close>

definition similarity ::
  "unicode \<Rightarrow> (ustring \<Rightarrow> ustring \<Rightarrow> real option) \<Rightarrow> ustring \<Rightarrow> ustring \<Rightarrow> real option" where
  "similarity U tfidf_cosine jd_clean cv_clean =
     (if str_strip U jd_clean \<noteq> [] \<and> str_strip U cv_clean \<noteq> []
      then tfidf_cosine jd_clean cv_clean else None)"

definition jd_match_fraction :: "real option \<Rightarrow> real" where
  "jd_match_fraction sim = (case sim of None \<Rightarrow> 0 | Some v \<Rightarrow> v)"

definition kind_of :: "real option \<Rightarrow> number_kind" where
  "kind_of sim = (case sim of None \<Rightarrow> Python_float | Some v \<Rightarrow> Numpy_float)"

text \<open>
  \<^verbatim>\<open>
  found_skills = []
  if skills_list and cv_clean:
      for skill in skills_list:
          if re.search(rf'\b{re.escape(skill)}\b', cv_clean):
              found_skills.append(skill)
  skills_match = len(found_skills) / len(skills_list) if skills_list else 0
  \<close>
\<close>

definition find_skills :: "unicode \<Rightarrow> ustring list \<Rightarrow> ustring \<Rightarrow> ustring list" where
  "find_skills U skills_list cv_clean =
     (if skills_list \<noteq> [] \<and> cv_clean \<noteq> []
      then filter (\<lambda>skill. search_whole_word U skill cv_clean) skills_list
      else [])"

definition skills_match_fraction :: "numerics \<Rightarrow> ustring list \<Rightarrow> ustring list \<Rightarrow> real" where
  "skills_match_fraction N found skills_list =
     (if skills_list \<noteq> [] then fdiv N (real (length found)) (real (length skills_list))
      else 0)"

text \<open>
  \<^verbatim>\<open>total_score = (skills_match * 0.6 + jd_match * 0.4) * 100\<close>, every operation and
  both literals rounded.
\<close>

definition weighted_total :: "numerics \<Rightarrow> real \<Rightarrow> real \<Rightarrow> real" where
  "weighted_total N sm jd =
     fmul N (fadd N (fmul N sm (fl N (6/10))) (fmul N jd (fl N (4/10)))) 100"

text \<open>
  The body of the \<^verbatim>\<open>try\<close> block, on three strings.  Where \<^verbatim>\<open>jd_match\<close> or
  \<^verbatim>\<open>skills_match\<close> is the integer 0, \<^verbatim>\<open>round(0 * 100, 2)\<close> is integer arithmetic and
  gives 0.
\<close>

definition match_body ::
  "unicode \<Rightarrow> numerics \<Rightarrow> (ustring \<Rightarrow> ustring \<Rightarrow> real option)
     \<Rightarrow> ustring \<Rightarrow> ustring \<Rightarrow> ustring \<Rightarrow> match_result" where
  "match_body U N tfidf_cosine cv_text job_description required_skills =
     (let cv_clean = sub_punct_space U (str_lower U cv_text);
          jd_clean = sub_punct_space U (str_lower U job_description);
          skills_list = skills_list_of U required_skills;
          sim = similarity U tfidf_cosine jd_clean cv_clean;
          jd = jd_match_fraction sim;
          found = find_skills U skills_list cv_clean;
          sm = skills_match_fraction N found skills_list
      in \<lparr> total_score = round2 N (kind_of sim) (weighted_total N sm jd),
           jd_match = (case sim of None \<Rightarrow> 0
                       | Some v \<Rightarrow> round2 N Numpy_float (fmul N v 100)),
           skills_match = (if skills_list = [] then 0
                           else round2 N Python_float (fmul N sm 100)),
           missing_skills = set skills_list - set found,
           found_skills = found \<rparr>)"

text \<open>The dictionary of the \<^verbatim>\<open>except\<close> branch.\<close>

definition zero_result :: match_result where
  "zero_result = \<lparr> total_score = 0, jd_match = 0, skills_match = 0,
                   missing_skills = {}, found_skills = [] \<rparr>"

text \<open>
  \<^verbatim>\<open>calculate_match(cv_text, job_description, required_skills)\<close>.  An argument is a
  string or \<^verbatim>\<open>None\<close>.  A missing or empty \<^verbatim>\<open>cv_text\<close> or \<^verbatim>\<open>job_description\<close> is
  replaced by the empty string; a missing \<^verbatim>\<open>required_skills\<close> makes
  \<^verbatim>\<open>required_skills.split\<close> raise, and the handler returns the all-zero dictionary.
\<close>

definition or_empty :: "ustring option \<Rightarrow> ustring" where
  "or_empty s = (case s of None \<Rightarrow> [] | Some t \<Rightarrow> t)"

definition calculate_match ::
  "unicode \<Rightarrow> numerics \<Rightarrow> (ustring \<Rightarrow> ustring \<Rightarrow> real option)
     \<Rightarrow> ustring option \<Rightarrow> ustring option \<Rightarrow> ustring option \<Rightarrow> match_result" where
  "calculate_match U N tfidf_cosine cv_text job_description required_skills =
     (case required_skills of
        None \<Rightarrow> zero_result
      | Some rs \<Rightarrow>
          match_body U N tfidf_cosine (or_empty cv_text) (or_empty job_description) rs)"

section \<open>Text extraction\<close>

text \<open>
  Every exception that leaves the extraction functions is a plain \<^verbatim>\<open>Exception\<close> built
  from a message, so an error value is that message.
\<close>

datatype py_exception = Exception ustring

fun str_of :: "py_exception \<Rightarrow> ustring" where
  "str_of (Exception msg) = msg"

text \<open>
  A file on disk: its path and its bytes.  The libraries that read it (\<^verbatim>\<open>python-magic\<close>,
  \<^verbatim>\<open>pdfminer\<close>, \<^verbatim>\<open>python-docx\<close>) and the upload helpers of \<^verbatim>\<open>werkzeug\<close> are parameters
  of the model; \<open>Inl msg\<close> is a call that raises an exception whose \<^verbatim>\<open>str\<close> is \<open>msg\<close>.
\<close>

record stored_file =
  file_path :: ustring
  file_bytes :: "nat list"

record libs =
  magic_from_file :: "stored_file \<Rightarrow> ustring + ustring"
  pdfminer_extract_text :: "stored_file \<Rightarrow> ustring + ustring"
  docx_paragraphs :: "stored_file \<Rightarrow> ustring + ustring list"
  secure_filename :: "ustring \<Rightarrow> ustring"
  file_save :: "stored_file \<Rightarrow> ustring option"

text \<open>\<^verbatim>\<open>"\n".join(xs)\<close>\<close>

fun newline_join :: "ustring list \<Rightarrow> ustring" where
  "newline_join [] = []"
| "newline_join [x] = x"
| "newline_join (x # y # ys) = x @ [10] @ newline_join (y # ys)"

text \<open>
  \<^verbatim>\<open>s.rsplit('.', 1)[1]\<close>: the text after the last dot (U+002E); without a dot the list
  has one element and the index raises \<^verbatim>\<open>IndexError('list index out of range')\<close>.
\<close>

definition rsplit_dot_1 :: "ustring \<Rightarrow> ustring + ustring" where
  "rsplit_dot_1 s =
     (if 46 \<in> set s then Inr (rev (takeWhile (\<lambda>c. c \<noteq> 46) (rev s)))
      else Inl (ustr ''list index out of range''))"

definition extract_text_from_pdf :: "libs \<Rightarrow> stored_file \<Rightarrow> py_exception + ustring" where
  "extract_text_from_pdf L f =
     (case pdfminer_extract_text L f of
        Inl msg \<Rightarrow> Inl (Exception (ustr ''Failed to extract PDF text: '' @ msg))
      | Inr body \<Rightarrow> Inr body)"

definition extract_text_from_docx :: "libs \<Rightarrow> stored_file \<Rightarrow> py_exception + ustring" where
  "extract_text_from_docx L f =
     (case docx_paragraphs L f of
        Inl msg \<Rightarrow> Inl (Exception (ustr ''Failed to extract DOCX text: '' @ msg))
      | Inr paras \<Rightarrow> Inr (newline_join paras))"

definition mime_pdf :: ustring where
  "mime_pdf = ustr ''application/pdf''"

definition mime_docx :: ustring where
  "mime_docx =
     ustr ''application/vnd.openxmlformats-officedocument.wordprocessingml.document''"

text \<open>The body of the \<^verbatim>\<open>try\<close> block of \<^verbatim>\<open>extract_text_from_file\<close>; \<open>Inl msg\<close> is an
  exception with that message reaching the handler.\<close>

definition extract_body :: "unicode \<Rightarrow> libs \<Rightarrow> stored_file \<Rightarrow> ustring + ustring" where
  "extract_body U L f =
     (case magic_from_file L f of
        Inl msg \<Rightarrow> Inl msg
      | Inr file_type \<Rightarrow>
          if file_type = mime_pdf then map_sum str_of id (extract_text_from_pdf L f)
          else if file_type = mime_docx then map_sum str_of id (extract_text_from_docx L f)
          else (case rsplit_dot_1 (file_path f) of
                  Inl msg \<Rightarrow> Inl msg
                | Inr e \<Rightarrow>
                    let ext = str_lower U e
                    in if ext = ustr ''pdf''
                       then map_sum str_of id (extract_text_from_pdf L f)
                       else if ext = ustr ''docx''
                       then map_sum str_of id (extract_text_from_docx L f)
                       else Inl (ustr ''Unsupported file type: '' @ file_type)))"

definition extract_text_from_file ::
  "unicode \<Rightarrow> libs \<Rightarrow> stored_file \<Rightarrow> py_exception + ustring" where
  "extract_text_from_file U L f =
     (case extract_body U L f of
        Inl msg \<Rightarrow> Inl (Exception (ustr ''File processing error: '' @ msg))
      | Inr body \<Rightarrow> Inr body)"

section \<open>\<^verbatim>\<open>analyze_cvs\<close>: the batch and its ranking\<close>

text \<open>\<^verbatim>\<open>allowed_file\<close>, with \<^verbatim>\<open>ALLOWED_EXTENSIONS = {'pdf', 'docx'}\<close> of \<^verbatim>\<open>config.py\<close>.\<close>

definition allowed_file :: "unicode \<Rightarrow> ustring \<Rightarrow> bool" where
  "allowed_file U name =
     (46 \<in> set name \<and>
      (case rsplit_dot_1 name of Inl _ \<Rightarrow> False
       | Inr e \<Rightarrow> str_lower U e \<in> {ustr ''pdf'', ustr ''docx''}))"

record upload =
  upload_filename :: ustring
  upload_bytes :: "nat list"

record job_post =
  job_description :: ustring
  required_skills :: ustring

record candidate =
  filename :: ustring
  analysis :: match_result
  cv_preview :: ustring

record batch =
  candidates :: "candidate list"
  flashes :: "(ustring \<times> ustring) list"

text \<open>\<^verbatim>\<open>cv_text[:200] + ("..." if len(cv_text) > 200 else "")\<close>\<close>

definition preview_of :: "ustring \<Rightarrow> ustring" where
  "preview_of cv_text = take 200 cv_text @ (if 200 < length cv_text then ustr ''...'' else [])"

text \<open>
  One turn of the loop \<^verbatim>\<open>for file in files\<close>.  An upload without a name or with a name
  that \<^verbatim>\<open>allowed_file\<close> rejects is passed over.  Otherwise the file is saved under
  \<^verbatim>\<open>os.path.join('uploads', secure_filename(file.filename))\<close>, its text extracted and
  scored, and the candidate appended; an exception on the way is flashed and the loop goes
  on.
\<close>

definition saved_file :: "libs \<Rightarrow> upload \<Rightarrow> stored_file" where
  "saved_file L u =
     \<lparr> file_path = ustr ''uploads/'' @ secure_filename L (upload_filename u),
       file_bytes = upload_bytes u \<rparr>"

definition process_upload ::
  "unicode \<Rightarrow> numerics \<Rightarrow> (ustring \<Rightarrow> ustring \<Rightarrow> real option) \<Rightarrow> libs
     \<Rightarrow> job_post \<Rightarrow> batch \<Rightarrow> upload \<Rightarrow> batch" where
  "process_upload U N tfidf_cosine L job b u =
     (if upload_filename u \<noteq> [] \<and> allowed_file U (upload_filename u) then
        let name = secure_filename L (upload_filename u);
            f = saved_file L u;
            outcome = (case file_save L f of
                         Some msg \<Rightarrow> Inl msg
                       | None \<Rightarrow> map_sum str_of id (extract_text_from_file U L f))
        in (case outcome of
              Inl msg \<Rightarrow>
                b\<lparr> flashes := flashes b @
                     [(ustr ''Error processing '' @ upload_filename u @ ustr '': '' @ msg,
                       ustr ''error'')] \<rparr>
            | Inr cv_text \<Rightarrow>
                b\<lparr> candidates := candidates b @
                     [\<lparr> filename = name,
                        analysis = calculate_match U N tfidf_cosine (Some cv_text)
                                     (Some (job_description job)) (Some (required_skills job)),
                        cv_preview = preview_of cv_text \<rparr>] \<rparr>)
      else b)"

definition process_uploads ::
  "unicode \<Rightarrow> numerics \<Rightarrow> (ustring \<Rightarrow> ustring \<Rightarrow> real option) \<Rightarrow> libs
     \<Rightarrow> job_post \<Rightarrow> upload list \<Rightarrow> batch" where
  "process_uploads U N tfidf_cosine L job files =
     foldl (process_upload U N tfidf_cosine L job) \<lparr> candidates = [], flashes = [] \<rparr> files"

text \<open>
  \<^verbatim>\<open>candidates.sort(key=lambda x: x['analysis']['total_score'], reverse=True)\<close>.
  \<^verbatim>\<open>list.sort\<close> is a stable ascending sort; with \<^verbatim>\<open>reverse=True\<close> it reverses the list,
  sorts it and reverses the result.
\<close>

definition sort_reverse :: "('a \<Rightarrow> real) \<Rightarrow> 'a list \<Rightarrow> 'a list" where
  "sort_reverse key xs = rev (sort_key key (rev xs))"

definition rank :: "candidate list \<Rightarrow> candidate list" where
  "rank cs = sort_reverse (\<lambda>x. total_score (analysis x)) cs"

text \<open>\<^verbatim>\<open>candidates[0] if candidates else None\<close>\<close>

definition best_candidate :: "candidate list \<Rightarrow> candidate option" where
  "best_candidate cs = (case cs of [] \<Rightarrow> None | c # _ \<Rightarrow> Some c)"

text \<open>
  What the \<^verbatim>\<open>POST\<close> branch of \<^verbatim>\<open>analyze_cvs\<close> renders: the results page with the ranked
  candidates and the best one, or, when no candidate was produced, the upload form again
  with one more flashed message.
\<close>

datatype page =
  Analysis_results "candidate list" "candidate option"
| Analyze_form

definition analyze_cvs ::
  "unicode \<Rightarrow> numerics \<Rightarrow> (ustring \<Rightarrow> ustring \<Rightarrow> real option) \<Rightarrow> libs
     \<Rightarrow> job_post \<Rightarrow> upload list \<Rightarrow> page \<times> (ustring \<times> ustring) list" where
  "analyze_cvs U N tfidf_cosine L job files =
     (let b = process_uploads U N tfidf_cosine L job files
      in if candidates b \<noteq> []
         then (let ranked = rank (candidates b)
               in (Analysis_results ranked (best_candidate ranked), flashes b))
         else (Analyze_form,
               flashes b @
                 [(ustr ''No valid CVs processed. Please upload PDF or DOCX files.'',
                   ustr ''error'')]))"

section \<open>What is assumed of the interpreter and the libraries\<close>

text \<open>
  The facts of the Unicode database that the properties below rest on.  On ASCII the
  whitespace characters are U+0009 to U+000D and U+001C to U+0020, the alphanumeric
  ones are the digits and the letters, the capitals A to Z are lowered to a to z and
  nothing else changes, and the letters are the cased characters; a letter is not
  case-ignorable.  A whitespace character is its own lowercase, is neither cased nor
  case-ignorable and is not the capital sigma.  A character of a lowercase mapping is
  its own lowercase and is not the capital sigma, and so are the two small sigmas.
\<close>

definition python_unicode :: "unicode \<Rightarrow> bool" where
  "python_unicode U \<longleftrightarrow>
     (\<forall>c<128. is_whitespace U c = (9 \<le> c \<and> c \<le> 13 \<or> 28 \<le> c \<and> c \<le> 32))
     \<and> (\<forall>c<128. is_alnum U c =
            (48 \<le> c \<and> c \<le> 57 \<or> 65 \<le> c \<and> c \<le> 90 \<or> 97 \<le> c \<and> c \<le> 122))
     \<and> (\<forall>c<128. to_lower_full U c = [if 65 \<le> c \<and> c \<le> 90 then c + 32 else c])
     \<and> (\<forall>c<128. is_cased U c = (65 \<le> c \<and> c \<le> 90 \<or> 97 \<le> c \<and> c \<le> 122))
     \<and> (\<forall>c. (65 \<le> c \<and> c \<le> 90 \<or> 97 \<le> c \<and> c \<le> 122) \<longrightarrow> \<not> is_case_ignorable U c)
     \<and> (\<forall>c. is_whitespace U c \<longrightarrow>
            to_lower_full U c = [c] \<and> \<not> is_cased U c \<and> \<not> is_case_ignorable U c
            \<and> c \<noteq> 0x3A3)
     \<and> (\<forall>c d. d \<in> set (to_lower_full U c) \<longrightarrow> to_lower_full U d = [d] \<and> d \<noteq> 0x3A3)
     \<and> to_lower_full U 0x3C2 = [0x3C2] \<and> to_lower_full U 0x3C3 = [0x3C3]"


text \<open>
  The facts of binary floating-point arithmetic that the properties below rest on:
  rounding to the nearest number is monotone and leaves a dyadic number with a
  significand of 53 bits as it is; rounding to two decimals is monotone, leaves an
  integer as it is, and does not lift a number that exceeds an integer by at most 0.004
  above that integer.
\<close>

definition ieee_rounding :: "numerics \<Rightarrow> bool" where
  "ieee_rounding N \<longleftrightarrow>
     (\<forall>x y. x \<le> y \<longrightarrow> fl N x \<le> fl N y)
     \<and> (\<forall>k j. \<bar>k\<bar> \<le> 2 ^ 53 \<and> j \<le> 1000 \<longrightarrow>
            fl N (of_int k / 2 ^ j) = of_int k / 2 ^ j)
     \<and> (\<forall>kd x y. x \<le> y \<longrightarrow> round2 N kd x \<le> round2 N kd y)
     \<and> (\<forall>kd n. \<bar>n\<bar> \<le> 10 ^ 6 \<longrightarrow> round2 N kd (of_int n) = of_int n)
     \<and> (\<forall>kd n x. \<bar>n\<bar> \<le> 10 ^ 6 \<and> x \<le> of_int n + 1 / 250 \<longrightarrow>
            round2 N kd x \<le> of_int n)"

text \<open>
  The cosine of the angle between two vectors without negative entries lies between 0
  and 1; the computed one may exceed 1 by a rounding error.
\<close>

definition unit_valued :: "(ustring \<Rightarrow> ustring \<Rightarrow> real option) \<Rightarrow> bool" where
  "unit_valued tfidf_cosine \<longleftrightarrow>
     (\<forall>a b v. tfidf_cosine a b = Some v \<longrightarrow> 0 \<le> v \<and> v \<le> 1 + 1 / 2 ^ 20)"

section \<open>Instances for concrete runs\<close>

text \<open>
  An excerpt of the Unicode tables: ASCII, the whitespace characters U+0085 and U+00A0,
  the letters U+00C9 and U+00E9 (E with acute) and the three sigmas.
\<close>

definition unicode_excerpt :: unicode where
  "unicode_excerpt =
     \<lparr> is_whitespace =
         (\<lambda>c. 9 \<le> c \<and> c \<le> 13 \<or> 28 \<le> c \<and> c \<le> 32 \<or> c = 0x85 \<or> c = 0xA0),
       is_alnum =
         (\<lambda>c. 48 \<le> c \<and> c \<le> 57 \<or> 65 \<le> c \<and> c \<le> 90 \<or> 97 \<le> c \<and> c \<le> 122
              \<or> c = 0xC9 \<or> c = 0xE9 \<or> c = 0x3A3 \<or> c = 0x3C2 \<or> c = 0x3C3),
       to_lower_full =
         (\<lambda>c. if 65 \<le> c \<and> c \<le> 90 then [c + 32] else if c = 0xC9 then [0xE9]
              else if c = 0x3A3 then [0x3C3] else [c]),
       is_cased =
         (\<lambda>c. 65 \<le> c \<and> c \<le> 90 \<or> 97 \<le> c \<and> c \<le> 122
              \<or> c = 0xC9 \<or> c = 0xE9 \<or> c = 0x3A3 \<or> c = 0x3C2 \<or> c = 0x3C3),
       is_case_ignorable =
         (\<lambda>c. c = 0x27 \<or> c = 0x2E \<or> c = 0x3A \<or> c = 0x5E \<or> c = 0x60) \<rparr>"

text \<open>
  Arithmetic without rounding error: \<open>fl\<close> changes nothing and \<open>round2\<close> is the nearest
  multiple of 0.01, a tie going to the even one.
\<close>

definition round_half_even :: "real \<Rightarrow> int" where
  "round_half_even y =
     (let f = \<lfloor>y\<rfloor>; d = y - of_int f
      in if d < 1/2 then f else if 1/2 < d then f + 1 else if even f then f else f + 1)"

definition exact_numerics :: numerics where
  "exact_numerics =
     \<lparr> fl = (\<lambda>x. x),
       round2 = (\<lambda>kd x. of_int (round_half_even (x * 100)) / 100) \<rparr>"

text \<open>
  Binary64 arithmetic.  \<open>norm_exp n x\<close> is the exponent \<open>e\<close> with \<open>2^e \<le> x < 2^(e+1)\<close> of a
  positive \<open>x\<close>, found in at most \<open>n\<close> steps.  \<open>binary64_round\<close> rounds to the nearest
  number with a significand of 53 bits, a tie going to the even significand; below
  \<open>2^-1022\<close> the spacing stays \<open>2^-1074\<close>.  Overflow is left out: the numbers of the scorer
  stay below 101.
\<close>

fun norm_exp :: "nat \<Rightarrow> real \<Rightarrow> int" where
  "norm_exp 0 x = 0"
| "norm_exp (Suc n) x =
     (if 2 \<le> x then norm_exp n (x / 2) + 1
      else if x < 1 then norm_exp n (x * 2) - 1
      else 0)"

definition pow2 :: "int \<Rightarrow> real" where
  "pow2 e = (if 0 \<le> e then 2 ^ nat e else 1 / 2 ^ nat (- e))"

definition binary64_round :: "real \<Rightarrow> real" where
  "binary64_round x =
     (if x = 0 then 0
      else let e = max (norm_exp 1100 \<bar>x\<bar>) (- 1022); u = pow2 (e - 52)
           in sgn x * of_int (round_half_even (\<bar>x\<bar> / u)) * u)"

text \<open>
  \<^verbatim>\<open>round(x, 2)\<close> of a Python \<^verbatim>\<open>float\<close> is the binary64 number nearest to the decimal
  with two places nearest to \<open>x\<close>.  \<^verbatim>\<open>round(x, 2)\<close> of a \<^verbatim>\<open>numpy.float64\<close> multiplies by
  100, rounds to an integer and divides by 100, each in binary64.
\<close>

definition binary64 :: numerics where
  "binary64 =
     \<lparr> fl = binary64_round,
       round2 = (\<lambda>kd x. case kd of
           Python_float \<Rightarrow> binary64_round (of_int (round_half_even (x * 100)) / 100)
         | Numpy_float \<Rightarrow>
             binary64_round (of_int (round_half_even (binary64_round (x * 100))) / 100)) \<rparr>"

text \<open>
  A small library environment: a file is a PDF when its bytes start with \<^verbatim>\<open>%PDF\<close>, and
  then its text is what follows; reading anything else as a PDF or as a DOCX raises;
  names are stored as they are and saving succeeds.
\<close>

definition stub_libs :: libs where
  "stub_libs =
     \<lparr> magic_from_file =
         (\<lambda>f. Inr (if take 4 (file_bytes f) = ustr ''%PDF'' then mime_pdf
                    else ustr ''text/plain'')),
       pdfminer_extract_text =
         (\<lambda>f. if take 4 (file_bytes f) = ustr ''%PDF'' then Inr (drop 4 (file_bytes f))
              else Inl (ustr ''No /Root object! - Is this really a PDF?'')),
       docx_paragraphs = (\<lambda>f. Inl (ustr ''File is not a zip file'')),
       secure_filename = (\<lambda>name. name),
       file_save = (\<lambda>f. None) \<rparr>"

text \<open>A candidate with a given name and total score, the other fields empty.\<close>

definition candidate_scoring :: "ustring \<Rightarrow> real \<Rightarrow> candidate" where
  "candidate_scoring name s =
     \<lparr> filename = name, analysis = zero_result\<lparr> total_score := s \<rparr>, cv_preview = [] \<rparr>"

text \<open>A job post that asks for \<^verbatim>\<open>python\<close>.\<close>

definition python_job :: job_post where
  "python_job = \<lparr> job_description = ustr ''python developer'', required_skills = ustr ''Python'' \<rparr>"

section \<open>Auxiliary notions\<close>

text \<open>The candidates a rendered page shows.\<close>

fun page_candidates :: "page \<Rightarrow> candidate list" where
  "page_candidates (Analysis_results cs best) = cs"
| "page_candidates Analyze_form = []"

text \<open>
  The cleaned text of an argument, and the two numbers that \<^verbatim>\<open>calculate_match\<close> weighs:
  the values of its variables \<^verbatim>\<open>skills_match\<close> and \<^verbatim>\<open>jd_match\<close> before they are
  scaled and rounded.
\<close>

definition cleaned :: "unicode \<Rightarrow> ustring option \<Rightarrow> ustring" where
  "cleaned U s = sub_punct_space U (str_lower U (or_empty s))"

definition skills_fraction :: "unicode \<Rightarrow> numerics \<Rightarrow> ustring option \<Rightarrow> ustring \<Rightarrow> real" where
  "skills_fraction U N cv req =
     skills_match_fraction N (find_skills U (skills_list_of U req) (cleaned U cv))
       (skills_list_of U req)"

definition jd_similarity ::
  "unicode \<Rightarrow> (ustring \<Rightarrow> ustring \<Rightarrow> real option) \<Rightarrow> ustring option \<Rightarrow> ustring option
     \<Rightarrow> real option" where
  "jd_similarity U tfidf_cosine cv jd = similarity U tfidf_cosine (cleaned U jd) (cleaned U cv)"

definition jd_fraction ::
  "unicode \<Rightarrow> (ustring \<Rightarrow> ustring \<Rightarrow> real option) \<Rightarrow> ustring option \<Rightarrow> ustring option
     \<Rightarrow> real" where
  "jd_fraction U tfidf_cosine cv jd = jd_match_fraction (jd_similarity U tfidf_cosine cv jd)"



section \<open>Properties of the string operations\<close>

subsection \<open>Consequences of the Unicode facts\<close>

lemma ascii_space:
  "python_unicode U \<Longrightarrow> c < 128 \<Longrightarrow> is_space U c = (9 \<le> c \<and> c \<le> 13 \<or> 28 \<le> c \<and> c \<le> 32)"
  by (simp add: python_unicode_def is_space_def)

lemma ascii_word:
  "python_unicode U \<Longrightarrow> c < 128 \<Longrightarrow>
   is_word U c = (48 \<le> c \<and> c \<le> 57 \<or> 65 \<le> c \<and> c \<le> 90 \<or> c = 95 \<or> 97 \<le> c \<and> c \<le> 122)"
  by (auto simp: python_unicode_def is_word_def)

lemma ascii_lower:
  "python_unicode U \<Longrightarrow> c < 128 \<Longrightarrow>
   to_lower_full U c = [if 65 \<le> c \<and> c \<le> 90 then c + 32 else c]"
  by (simp add: python_unicode_def)


lemma hyphen_not_space: "python_unicode U \<Longrightarrow> \<not> is_space U 45"
  by (simp add: ascii_space)

lemma hyphen_not_word: "python_unicode U \<Longrightarrow> \<not> is_word U 45"
  by (simp add: ascii_word)





subsection \<open>Lowering\<close>














subsection \<open>Stripping\<close>

lemma rstrip_split: "xs = rev (dropWhile P (rev xs)) @ rev (takeWhile P (rev xs))"
proof -
  have "rev xs = takeWhile P (rev xs) @ dropWhile P (rev xs)" by simp
  then show ?thesis by (metis rev_append rev_rev_ident)
qed

lemma str_strip_decomp:
  "\<exists>a b. s = a @ str_strip U s @ b
         \<and> (\<forall>x\<in>set a. is_space U x) \<and> (\<forall>x\<in>set b. is_space U x)"
proof -
  let ?u = "dropWhile (is_space U) s"
  let ?a = "takeWhile (is_space U) s"
  let ?b = "rev (takeWhile (is_space U) (rev ?u))"
  have 1: "s = ?a @ ?u" by simp
  have "?u = str_strip U s @ ?b" unfolding str_strip_def by (rule rstrip_split)
  with 1 have "s = ?a @ str_strip U s @ ?b" by simp
  moreover have "\<forall>x\<in>set ?a. is_space U x" by (auto dest: set_takeWhileD)
  moreover have "\<forall>x\<in>set ?b. is_space U x" by (auto dest: set_takeWhileD)
  ultimately show ?thesis by blast
qed






lemma str_strip_all_space: "\<forall>c\<in>set s. is_space U c \<Longrightarrow> str_strip U s = []"
proof -
  assume "\<forall>c\<in>set s. is_space U c"
  then have "dropWhile (is_space U) s = []" by (simp add: dropWhile_eq_Nil_conv)
  then show ?thesis unfolding str_strip_def by (simp only: rev.simps dropWhile.simps)
qed


subsection \<open>Runs of whitespace\<close>













subsection \<open>\<^verbatim>\<open>normalize_skill\<close>\<close>





lemmas eval_strings =
  is_skill_char_def next_is_cased_def handle_capital_sigma_def
  str_lower_def str_strip_def sub_non_skill_chars_def sub_punct_space_def
  normalize_skill_def ustr_def

lemmas eval_excerpt = eval_strings is_space_def is_word_def unicode_excerpt_def

lemma python_unicode_excerpt: "python_unicode unicode_excerpt"
  by (auto simp: python_unicode_def unicode_excerpt_def split: if_splits)

lemma ex_general:
  assumes U: "python_unicode U"
  shows "normalize_skill U (ustr ''Python '') = ustr ''python''"
  by (simp add: eval_strings ascii_space[OF U] ascii_word[OF U] ascii_lower[OF U])

lemma ex_general2:
  assumes U: "python_unicode U"
  shows "normalize_skill U (ustr ''  Machine   Learning!! '') = ustr ''machine learning''"
  by (simp add: eval_strings ascii_space[OF U] ascii_word[OF U] ascii_lower[OF U])



section \<open>Properties of the arithmetic\<close>

lemma fl_mono: "ieee_rounding N \<Longrightarrow> x \<le> y \<Longrightarrow> fl N x \<le> fl N y"
  by (simp add: ieee_rounding_def)

lemma fl_dyadic:
  "ieee_rounding N \<Longrightarrow> \<bar>k\<bar> \<le> 2 ^ 53 \<Longrightarrow> j \<le> 1000 \<Longrightarrow> fl N (of_int k / 2 ^ j) = of_int k / 2 ^ j"
  by (simp add: ieee_rounding_def)

lemma fl_int: "ieee_rounding N \<Longrightarrow> \<bar>k\<bar> \<le> 2 ^ 53 \<Longrightarrow> fl N (of_int k) = of_int k"
  using fl_dyadic[of N k 0] by simp

lemma fl_0 [simp]: "ieee_rounding N \<Longrightarrow> fl N 0 = 0"
  using fl_int[of N 0] by simp

lemma fl_1 [simp]: "ieee_rounding N \<Longrightarrow> fl N 1 = 1"
  using fl_int[of N 1] by simp

lemma fl_100 [simp]: "ieee_rounding N \<Longrightarrow> fl N 100 = 100"
  using fl_int[of N 100] by simp

lemma fl_nonneg: "ieee_rounding N \<Longrightarrow> 0 \<le> x \<Longrightarrow> 0 \<le> fl N x"
  using fl_mono[of N 0 x] by simp

lemma fl_le_dyadic:
  assumes "ieee_rounding N" "x \<le> of_int k / 2 ^ j" "\<bar>k\<bar> \<le> 2 ^ 53" "j \<le> 1000"
  shows "fl N x \<le> of_int k / 2 ^ j"
  using fl_mono[OF assms(1,2)] fl_dyadic[OF assms(1,3,4)] by simp

lemma round2_mono: "ieee_rounding N \<Longrightarrow> x \<le> y \<Longrightarrow> round2 N kd x \<le> round2 N kd y"
  by (simp add: ieee_rounding_def)

lemma round2_int: "ieee_rounding N \<Longrightarrow> \<bar>n\<bar> \<le> 10 ^ 6 \<Longrightarrow> round2 N kd (of_int n) = of_int n"
  by (simp add: ieee_rounding_def)

lemma round2_0 [simp]: "ieee_rounding N \<Longrightarrow> round2 N kd 0 = 0"
  using round2_int[of N 0 kd] by simp

lemma round2_100 [simp]: "ieee_rounding N \<Longrightarrow> round2 N kd 100 = 100"
  using round2_int[of N 100 kd] by simp

lemma round2_cap:
  "ieee_rounding N \<Longrightarrow> \<bar>n\<bar> \<le> 10 ^ 6 \<Longrightarrow> x \<le> of_int n + 1 / 250 \<Longrightarrow> round2 N kd x \<le> of_int n"
  by (simp add: ieee_rounding_def)

lemma round2_range:
  assumes N: "ieee_rounding N" and "0 \<le> x" "x \<le> 100 + 1 / 250"
  shows "0 \<le> round2 N kd x \<and> round2 N kd x \<le> 100"
proof -
  have "round2 N kd 0 \<le> round2 N kd x" using round2_mono[OF N assms(2)] .
  moreover have "round2 N kd x \<le> of_int 100"
    by (rule round2_cap[OF N]) (use assms(3) in simp_all)
  ultimately show ?thesis using N by simp
qed

lemma skills_match_fraction_range:
  assumes N: "ieee_rounding N"
  shows "0 \<le> skills_match_fraction N (find_skills U sl cv) sl
         \<and> skills_match_fraction N (find_skills U sl cv) sl \<le> 1"
proof (cases "sl = []")
  case True then show ?thesis by (simp add: skills_match_fraction_def)
next
  case False
  let ?q = "real (length (find_skills U sl cv)) / real (length sl)"
  have "length (find_skills U sl cv) \<le> length sl" by (simp add: find_skills_def)
  then have q: "0 \<le> ?q" "?q \<le> 1" using False by (simp_all add: divide_le_eq_1)
  have "0 \<le> fl N ?q" by (rule fl_nonneg[OF N q(1)])
  moreover have "fl N ?q \<le> fl N 1" by (rule fl_mono[OF N q(2)])
  ultimately show ?thesis using False N by (simp add: skills_match_fraction_def fdiv_def)
qed

lemma jd_match_fraction_range:
  assumes "unit_valued tc"
  shows "0 \<le> jd_match_fraction (similarity U tc jd cv)
         \<and> jd_match_fraction (similarity U tc jd cv) \<le> 1 + 1 / 2 ^ 20"
  using assms
  by (auto simp: jd_match_fraction_def similarity_def unit_valued_def split: option.splits)

lemma weighted_total_range:
  assumes N: "ieee_rounding N"
    and sm: "0 \<le> sm" "sm \<le> 1" and jd: "0 \<le> jd" "jd \<le> 1 + 1 / 2 ^ 20"
  shows "0 \<le> weighted_total N sm jd \<and> weighted_total N sm jd \<le> 100 + 1 / 250"
proof -
  let ?c6 = "fl N (6/10)" and ?c4 = "fl N (4/10)"
  have c6: "0 \<le> ?c6" "?c6 \<le> 629146 / 2 ^ 20"
    using fl_nonneg[OF N, of "6/10"] fl_le_dyadic[OF N, of "6/10" 629146 20] by simp_all
  have c4: "0 \<le> ?c4" "?c4 \<le> 419431 / 2 ^ 20"
    using fl_nonneg[OF N, of "4/10"] fl_le_dyadic[OF N, of "4/10" 419431 20] by simp_all
  let ?a = "fl N (sm * ?c6)" and ?b = "fl N (jd * ?c4)"
  have "sm * ?c6 \<le> 1 * ?c6" by (rule mult_right_mono[OF sm(2) c6(1)])
  then have "sm * ?c6 \<le> 629146 / 2 ^ 20" using c6(2) by simp
  then have a: "0 \<le> ?a" "?a \<le> 629146 / 2 ^ 20"
    using fl_nonneg[OF N, of "sm * ?c6"] fl_le_dyadic[OF N, of "sm * ?c6" 629146 20] sm(1) c6(1)
    by simp_all
  have "jd * ?c4 \<le> (1 + 1 / 2 ^ 20) * (419431 / 2 ^ 20)"
    by (rule mult_mono[OF jd(2) c4(2)]) (use c4(1) in simp_all)
  then have "jd * ?c4 \<le> 439805699687 / 2 ^ 40" by simp
  then have b: "0 \<le> ?b" "?b \<le> 439805699687 / 2 ^ 40"
    using fl_nonneg[OF N, of "jd * ?c4"] fl_le_dyadic[OF N, of "jd * ?c4" 439805699687 40]
      jd(1) c4(1) by simp_all
  let ?s = "fl N (?a + ?b)"
  have "?a + ?b \<le> 1099513095783 / 2 ^ 40" using a(2) b(2) by simp
  then have s: "0 \<le> ?s" "?s \<le> 1099513095783 / 2 ^ 40"
    using fl_nonneg[OF N, of "?a + ?b"] fl_le_dyadic[OF N, of "?a + ?b" 1099513095783 40]
      a(1) b(1) by simp_all
  let ?t = "fl N (?s * 100)"
  have "?s * 100 \<le> 109951309578300 / 2 ^ 40" using s(2) by simp
  then have t: "0 \<le> ?t" "?t \<le> 109951309578300 / 2 ^ 40"
    using fl_nonneg[OF N, of "?s * 100"]
      fl_le_dyadic[OF N, of "?s * 100" 109951309578300 40] s(1) by simp_all
  have "?t \<le> 100 + 1 / 250" using t(2) by simp
  then show ?thesis using t(1) by (simp add: weighted_total_def fmul_def fadd_def)
qed

text \<open>
  Claim C3.  For every input of \<^verbatim>\<open>calculate_match\<close>, a missing argument included,
  \<open>total_score\<close>, \<open>jd_match\<close> and \<open>skills_match\<close> lie in the closed interval from 0 to
  100, given the facts of floating-point rounding and a similarity library that returns
  values between 0 and 1.
\<close>

theorem scores_within_0_100:
  assumes N: "ieee_rounding N" and tc: "unit_valued tfidf_cosine"
  shows "0 \<le> total_score (calculate_match U N tfidf_cosine cv jd_text req)
         \<and> total_score (calculate_match U N tfidf_cosine cv jd_text req) \<le> 100
         \<and> 0 \<le> jd_match (calculate_match U N tfidf_cosine cv jd_text req)
         \<and> jd_match (calculate_match U N tfidf_cosine cv jd_text req) \<le> 100
         \<and> 0 \<le> skills_match (calculate_match U N tfidf_cosine cv jd_text req)
         \<and> skills_match (calculate_match U N tfidf_cosine cv jd_text req) \<le> 100"
proof (cases req)
  case None
  then show ?thesis by (simp add: calculate_match_def zero_result_def)
next
  case (Some rs)
  let ?cv = "sub_punct_space U (str_lower U (or_empty cv))"
  let ?jd = "sub_punct_space U (str_lower U (or_empty jd_text))"
  let ?sl = "skills_list_of U rs"
  let ?sim = "similarity U tfidf_cosine ?jd ?cv"
  let ?sf = "skills_match_fraction N (find_skills U ?sl ?cv) ?sl"
  let ?jf = "jd_match_fraction ?sim"
  have s: "0 \<le> ?sf" "?sf \<le> 1" using skills_match_fraction_range[OF N] by auto
  have j: "0 \<le> ?jf" "?jf \<le> 1 + 1 / 2 ^ 20" using jd_match_fraction_range[OF tc] by auto
  have w: "0 \<le> weighted_total N ?sf ?jf" "weighted_total N ?sf ?jf \<le> 100 + 1 / 250"
    using weighted_total_range[OF N s j] by auto
  have total: "0 \<le> round2 N kd (weighted_total N ?sf ?jf)
               \<and> round2 N kd (weighted_total N ?sf ?jf) \<le> 100" for kd
    by (rule round2_range[OF N w])
  have "0 \<le> fl N (?sf * 100)" using fl_nonneg[OF N] s(1) by simp
  moreover have "fl N (?sf * 100) \<le> fl N 100" by (rule fl_mono[OF N]) (use s(2) in simp)
  ultimately have skills: "0 \<le> round2 N Python_float (fmul N ?sf 100)
               \<and> round2 N Python_float (fmul N ?sf 100) \<le> 100"
    using N by (intro round2_range[OF N]) (simp_all add: fmul_def)
  have jdm: "0 \<le> round2 N Numpy_float (fmul N v 100)
             \<and> round2 N Numpy_float (fmul N v 100) \<le> 100" if "?sim = Some v" for v
  proof -
    from that j have v: "0 \<le> v" "v \<le> 1 + 1 / 2 ^ 20" by (simp_all add: jd_match_fraction_def)
    have "v * 100 \<le> 104857700 / 2 ^ 20" using v(2) by simp
    then have "fl N (v * 100) \<le> 104857700 / 2 ^ 20"
      using fl_le_dyadic[OF N, of "v * 100" 104857700 20] by simp
    then have "fl N (v * 100) \<le> 100 + 1 / 250" by simp
    moreover have "0 \<le> fl N (v * 100)" using fl_nonneg[OF N] v(1) by simp
    ultimately show ?thesis by (intro round2_range[OF N]) (simp_all add: fmul_def)
  qed
  show ?thesis using Some total skills jdm
    by (auto simp: calculate_match_def match_body_def Let_def split: option.splits)
qed

subsection \<open>Exact arithmetic has the rounding facts\<close>

lemma round_half_even_bounds:
  "\<lfloor>y\<rfloor> \<le> round_half_even y \<and> round_half_even y \<le> \<lfloor>y\<rfloor> + 1"
  by (simp add: round_half_even_def Let_def)

lemma round_half_even_of_int: "round_half_even (of_int n) = n"
  by (simp add: round_half_even_def Let_def)

lemma round_half_even_mono:
  assumes "x \<le> y"
  shows "round_half_even x \<le> round_half_even y"
proof (cases "\<lfloor>x\<rfloor> = \<lfloor>y\<rfloor>")
  case True
  then have "x - of_int \<lfloor>x\<rfloor> \<le> y - of_int \<lfloor>y\<rfloor>" using assms by simp
  then show ?thesis using True by (auto simp: round_half_even_def Let_def)
next
  case False
  then have "\<lfloor>x\<rfloor> < \<lfloor>y\<rfloor>" using floor_mono[OF assms] by simp
  then show ?thesis
    using round_half_even_bounds[of x] round_half_even_bounds[of y] by linarith
qed

lemma round_half_even_cap:
  assumes "x \<le> of_int m + 2 / 5"
  shows "round_half_even x \<le> m"
proof -
  have "\<lfloor>x\<rfloor> \<le> m" using assms by (simp add: floor_le_iff)
  then consider "\<lfloor>x\<rfloor> < m" | "\<lfloor>x\<rfloor> = m" by linarith
  then show ?thesis
  proof cases
    case 1 then show ?thesis using round_half_even_bounds[of x] by linarith
  next
    case 2
    then have "x - of_int \<lfloor>x\<rfloor> < 1 / 2" using assms by simp
    then show ?thesis using 2 by (simp add: round_half_even_def Let_def)
  qed
qed

lemma ieee_rounding_exact: "ieee_rounding exact_numerics"
proof -
  have m: "of_int (round_half_even (x * 100)) / 100 \<le> of_int (round_half_even (y * 100)) / (100::real)"
    if "x \<le> y" for x y :: real
    using round_half_even_mono[of "x * 100" "y * 100"] that by (simp add: divide_right_mono)
  have i: "of_int (round_half_even (of_int n * 100)) / (100::real) = of_int n" for n
    using round_half_even_of_int[of "n * 100"] by simp
  have c: "of_int (round_half_even (x * 100)) / (100::real) \<le> of_int n"
    if "x \<le> of_int n + 1 / 250" for x :: real and n
  proof -
    have "x * 100 \<le> of_int (n * 100) + 2 / 5" using that by simp
    then have "round_half_even (x * 100) \<le> n * 100" by (rule round_half_even_cap)
    then have "(of_int (round_half_even (x * 100)) :: real) \<le> of_int (n * 100)"
      by (simp only: of_int_le_iff)
    then show ?thesis by simp
  qed
  show ?thesis
    unfolding ieee_rounding_def exact_numerics_def using m i c by simp
qed

lemmas eval_match =
  calculate_match_def match_body_def or_empty_def skills_list_of_def find_skills_def
  skills_match_fraction_def jd_match_fraction_def similarity_def kind_of_def
  weighted_total_def fmul_def fadd_def fdiv_def search_whole_word_def match_here_def
  word_opt_def first_opt_def Let_def

lemmas eval_exact = exact_numerics_def round_half_even_def

theorem scores_within_0_100_witness:
  "ieee_rounding exact_numerics
   \<and> unit_valued (\<lambda>a b. Some 1)
   \<and> total_score (calculate_match unicode_excerpt exact_numerics (\<lambda>a b. Some 1)
        (Some (ustr ''python'')) (Some (ustr ''python'')) (Some (ustr ''python''))) = 100
   \<and> jd_match (calculate_match unicode_excerpt exact_numerics (\<lambda>a b. Some 1)
        (Some (ustr ''python'')) (Some (ustr ''python'')) (Some (ustr ''python''))) \<le> 100
   \<and> 0 \<le> skills_match (calculate_match unicode_excerpt exact_numerics (\<lambda>a b. Some 1)
        (Some (ustr ''python'')) (Some (ustr ''python'')) (Some (ustr ''python'')))"
proof -
  have h: "unit_valued (\<lambda>a b. Some 1)" by (simp add: unit_valued_def)
  have e: "total_score (calculate_match unicode_excerpt exact_numerics (\<lambda>a b. Some 1)
        (Some (ustr ''python'')) (Some (ustr ''python'')) (Some (ustr ''python''))) = 100"
    by (simp add: eval_match eval_excerpt eval_exact)
  from scores_within_0_100
         [OF ieee_rounding_exact h, of unicode_excerpt "Some (ustr ''python'')"
            "Some (ustr ''python'')" "Some (ustr ''python'')"]
  show ?thesis using ieee_rounding_exact h e by simp
qed

subsection \<open>Searching\<close>

lemma match_here_subset: "match_here U p skill rest \<Longrightarrow> set skill \<subseteq> set rest"
proof -
  assume "match_here U p skill rest"
  then have "take (length skill) rest = skill" by (simp add: match_here_def)
  then have "set skill = set (take (length skill) rest)" by simp
  then show ?thesis using set_take_subset[of "length skill" rest] by simp
qed

lemma search_from_subset: "search_from U p skill body \<Longrightarrow> set skill \<subseteq> set body"
proof (induction body arbitrary: p)
  case Nil
  then have "match_here U p skill []" by simp
  then show ?case by (rule match_here_subset)
next
  case (Cons c cs)
  from Cons.prems have "match_here U p skill (c # cs) \<or> search_from U (Some c) skill cs" by simp
  then show ?case
  proof
    assume "match_here U p skill (c # cs)" then show ?thesis by (rule match_here_subset)
  next
    assume "search_from U (Some c) skill cs"
    then have "set skill \<subseteq> set cs" by (rule Cons.IH)
    then show ?thesis by auto
  qed
qed

lemma hyphen_not_in_clean:
  assumes U: "python_unicode U"
  shows "45 \<notin> set (sub_punct_space U s)"
  using hyphen_not_word[OF U] hyphen_not_space[OF U] by (auto simp: sub_punct_space_def)

lemma hyphen_skill_not_found:
  assumes U: "python_unicode U" and t: "45 \<in> set t"
  shows "t \<notin> set (find_skills U sl (sub_punct_space U s))"
proof
  assume "t \<in> set (find_skills U sl (sub_punct_space U s))"
  then have "search_whole_word U t (sub_punct_space U s)"
    by (auto simp: find_skills_def split: if_splits)
  then have "set t \<subseteq> set (sub_punct_space U s)"
    unfolding search_whole_word_def by (rule search_from_subset)
  with t hyphen_not_in_clean[OF U] show False by blast
qed

subsection \<open>Hyphens survive normalisation\<close>

lemma lower_from_keeps:
  "c \<in> set s \<Longrightarrow> to_lower_full U c = [c] \<Longrightarrow> c \<noteq> 0x3A3 \<Longrightarrow> c \<in> set (lower_from U l s)"
  by (induction s arbitrary: l) auto

lemma dropWhile_keeps: "c \<in> set s \<Longrightarrow> \<not> P c \<Longrightarrow> c \<in> set (dropWhile P s)"
  by (induction s) auto

lemma sub_ws_runs_keeps:
  "c \<in> set s \<and> \<not> is_space U c \<Longrightarrow> c \<in> set (sub_ws_runs U s)"
proof (induction U s rule: sub_ws_runs.induct)
  case (1 U) then show ?case by simp
next
  case (2 U a as)
  show ?case
  proof (cases "is_space U a")
    case True
    with "2.prems" have "c \<in> set as" by auto
    then have "c \<in> set (dropWhile (is_space U) as)"
      using "2.prems" by (intro dropWhile_keeps) auto
    with "2.IH"(1)[OF True] "2.prems" True show ?thesis by simp
  next
    case False
    with "2.IH"(2)[OF False] "2.prems" show ?thesis by auto
  qed
qed

lemma str_strip_keeps:
  assumes "c \<in> set s" "\<not> is_space U c"
  shows "c \<in> set (str_strip U s)"
proof -
  obtain a b where d: "s = a @ str_strip U s @ b"
    and a: "\<forall>x\<in>set a. is_space U x" and b: "\<forall>x\<in>set b. is_space U x"
    using str_strip_decomp by blast
  from d have "set s = set a \<union> set (str_strip U s) \<union> set b" by (metis set_append Un_assoc)
  with assms a b show ?thesis by blast
qed

lemma normalize_skill_keeps_hyphen:
  assumes U: "python_unicode U" and x: "45 \<in> set x"
  shows "45 \<in> set (normalize_skill U x)"
proof -
  have l: "to_lower_full U 45 = [45]" using ascii_lower[OF U, of 45] by simp
  have "45 \<in> set (str_lower U x)"
    unfolding str_lower_def using x l by (intro lower_from_keeps) auto
  then have "45 \<in> set (sub_non_skill_chars U (str_lower U x))"
    by (simp add: sub_non_skill_chars_def is_skill_char_def)
  then have "45 \<in> set (sub_ws_runs U (sub_non_skill_chars U (str_lower U x)))"
    using hyphen_not_space[OF U] by (intro sub_ws_runs_keeps) simp
  then show ?thesis
    unfolding normalize_skill_def using hyphen_not_space[OF U] by (intro str_strip_keeps)
qed

subsection \<open>The fields of the result\<close>

lemma found_skills_eq:
  "found_skills (calculate_match U N tfidf_cosine cv jd_text (Some req))
     = find_skills U (skills_list_of U req) (sub_punct_space U (str_lower U (or_empty cv)))"
  by (simp add: calculate_match_def match_body_def Let_def)

lemma missing_skills_eq:
  "missing_skills (calculate_match U N tfidf_cosine cv jd_text (Some req))
     = set (skills_list_of U req)
       - set (find_skills U (skills_list_of U req) (sub_punct_space U (str_lower U (or_empty cv))))"
  by (simp add: calculate_match_def match_body_def Let_def)

lemma jd_match_eq:
  "jd_match (calculate_match U N tfidf_cosine cv jd_text (Some req))
     = (case similarity U tfidf_cosine (sub_punct_space U (str_lower U (or_empty jd_text)))
               (sub_punct_space U (str_lower U (or_empty cv))) of
          None \<Rightarrow> 0 | Some v \<Rightarrow> round2 N Numpy_float (fmul N v 100))"
  by (simp add: calculate_match_def match_body_def Let_def)

lemma set_find_skills: "set (find_skills U sl cv) \<subseteq> set sl"
  by (auto simp: find_skills_def)

text \<open>
  Claim C8. When the cleaned candidate text or the cleaned job description is empty or
  consists of whitespace only, \<open>jd_match\<close> is 0, whatever the similarity library would
  return, whatever the required skills are, and also when an argument is missing.
\<close>

theorem blank_text_jd_match_zero:
  assumes "(\<forall>c \<in> set (sub_punct_space U (str_lower U (or_empty cv))). is_space U c)
           \<or> (\<forall>c \<in> set (sub_punct_space U (str_lower U (or_empty jd_text))). is_space U c)"
  shows "jd_match (calculate_match U N tfidf_cosine cv jd_text req) = 0"
proof (cases req)
  case None
  then show ?thesis by (simp add: calculate_match_def zero_result_def)
next
  case (Some rs)
  let ?cv = "sub_punct_space U (str_lower U (or_empty cv))"
  let ?jd = "sub_punct_space U (str_lower U (or_empty jd_text))"
  from assms have "str_strip U ?cv = [] \<or> str_strip U ?jd = []"
    using str_strip_all_space by blast
  then have "similarity U tfidf_cosine ?jd ?cv = None"
    by (auto simp: similarity_def)
  then show ?thesis unfolding Some jd_match_eq by simp
qed

theorem blank_text_jd_match_zero_witness:
  "list_all (is_space unicode_excerpt)
     (sub_punct_space unicode_excerpt (str_lower unicode_excerpt (or_empty (Some (ustr ''?! '')))))
   \<and> jd_match (calculate_match unicode_excerpt exact_numerics (\<lambda>a b. Some 1)
        (Some (ustr ''?! '')) (Some (ustr ''python'')) (Some (ustr ''sql''))) = 0
   \<and> jd_match (calculate_match unicode_excerpt exact_numerics (\<lambda>a b. Some 1)
        (Some (ustr ''python'')) None (Some (ustr ''sql''))) = 0
   \<and> jd_match (calculate_match unicode_excerpt exact_numerics (\<lambda>a b. Some 1)
        (Some (ustr ''python'')) (Some (ustr ''python'')) (Some (ustr ''sql''))) = 100"
proof -
  have h: "\<forall>c \<in> set (sub_punct_space unicode_excerpt
                 (str_lower unicode_excerpt (or_empty (Some (ustr ''?! ''))))).
       is_space unicode_excerpt c"
    by (simp add: or_empty_def eval_excerpt)
  have h2: "\<forall>c \<in> set (sub_punct_space unicode_excerpt
                 (str_lower unicode_excerpt (or_empty None))).
       is_space unicode_excerpt c"
    by (simp add: or_empty_def eval_excerpt)
  have e: "jd_match (calculate_match unicode_excerpt exact_numerics (\<lambda>a b. Some 1)
        (Some (ustr ''python'')) (Some (ustr ''python'')) (Some (ustr ''sql''))) = 100"
    by (simp add: eval_match eval_excerpt eval_exact)
  from blank_text_jd_match_zero[of unicode_excerpt "Some (ustr ''?! '')" "Some (ustr ''python'')"
         exact_numerics "\<lambda>a b. Some 1" "Some (ustr ''sql'')"] h
  have 1: "jd_match (calculate_match unicode_excerpt exact_numerics (\<lambda>a b. Some 1)
        (Some (ustr ''?! '')) (Some (ustr ''python'')) (Some (ustr ''sql''))) = 0" by blast
  from blank_text_jd_match_zero[of unicode_excerpt "Some (ustr ''python'')" None
         exact_numerics "\<lambda>a b. Some 1" "Some (ustr ''sql'')"] h2
  have 2: "jd_match (calculate_match unicode_excerpt exact_numerics (\<lambda>a b. Some 1)
        (Some (ustr ''python'')) None (Some (ustr ''sql''))) = 0" by blast
  from h have "list_all (is_space unicode_excerpt)
     (sub_punct_space unicode_excerpt (str_lower unicode_excerpt (or_empty (Some (ustr ''?! '')))))"
    by (simp only: list_all_iff)
  with 1 2 e show ?thesis by blast
qed

text \<open>
  Claim C10. A required skill whose normalised token holds a hyphen (U+002D) is never
  among the found skills and always among the missing ones, for every candidate text
  and job description: cleaning leaves no hyphen in the candidate text, normalisation
  keeps the hyphens of a skill, and a match would be a copy of the token in the cleaned
  text.  The required skills \<^verbatim>\<open>Python, Scikit-learn\<close> yield the token \<^verbatim>\<open>scikit-learn\<close>.
\<close>

theorem hyphenated_skill_never_found:
  assumes "python_unicode U"
  shows "(t \<in> set (skills_list_of U req) \<and> 45 \<in> set t \<longrightarrow>
            t \<notin> set (found_skills (calculate_match U N tfidf_cosine cv jd_text (Some req)))
            \<and> t \<in> missing_skills (calculate_match U N tfidf_cosine cv jd_text (Some req)))
         \<and> 45 \<notin> set (sub_punct_space U body)
         \<and> (45 \<in> set x \<longrightarrow> 45 \<in> set (normalize_skill U x))
         \<and> skills_list_of U (ustr ''Python, Scikit-learn'') = [ustr ''python'', ustr ''scikit-learn'']"
proof -
  note U = assms
  have 1: "t \<notin> set (found_skills (calculate_match U N tfidf_cosine cv jd_text (Some req)))
            \<and> t \<in> missing_skills (calculate_match U N tfidf_cosine cv jd_text (Some req))"
    if "t \<in> set (skills_list_of U req)" "45 \<in> set t"
    unfolding found_skills_eq missing_skills_eq
    using that hyphen_skill_not_found[OF U that(2)] by simp
  have 4: "skills_list_of U (ustr ''Python, Scikit-learn'') = [ustr ''python'', ustr ''scikit-learn'']"
    by (simp add: skills_list_of_def eval_strings ascii_space[OF U] ascii_word[OF U] ascii_lower[OF U])
  from 1 4 hyphen_not_in_clean[OF U] normalize_skill_keeps_hyphen[OF U] show ?thesis by blast
qed

theorem hyphenated_skill_never_found_witness:
  "python_unicode unicode_excerpt
   \<and> ustr ''scikit-learn'' \<in> set (skills_list_of unicode_excerpt (ustr ''Python, Scikit-learn''))
   \<and> 45 \<in> set (ustr ''scikit-learn'')
   \<and> ustr ''scikit-learn'' \<notin> set (found_skills (calculate_match unicode_excerpt exact_numerics
         (\<lambda>a b. None) (Some (ustr ''I use scikit-learn and python'')) None
         (Some (ustr ''Python, Scikit-learn''))))
   \<and> ustr ''scikit-learn'' \<in> missing_skills (calculate_match unicode_excerpt exact_numerics
         (\<lambda>a b. None) (Some (ustr ''I use scikit-learn and python'')) None
         (Some (ustr ''Python, Scikit-learn'')))
   \<and> found_skills (calculate_match unicode_excerpt exact_numerics
         (\<lambda>a b. None) (Some (ustr ''I use scikit-learn and python'')) None
         (Some (ustr ''Python, Scikit-learn''))) = [ustr ''python'']"
proof -
  have h1: "ustr ''scikit-learn'' \<in> set (skills_list_of unicode_excerpt (ustr ''Python, Scikit-learn''))"
    by (simp add: skills_list_of_def eval_excerpt)
  have h2: "45 \<in> set (ustr ''scikit-learn'')" by (simp add: ustr_def)
  have e: "found_skills (calculate_match unicode_excerpt exact_numerics
         (\<lambda>a b. None) (Some (ustr ''I use scikit-learn and python'')) None
         (Some (ustr ''Python, Scikit-learn''))) = [ustr ''python'']"
    by (simp add: eval_match eval_excerpt)
  from hyphenated_skill_never_found[OF python_unicode_excerpt,
         of "ustr ''scikit-learn''" "ustr ''Python, Scikit-learn''" exact_numerics "\<lambda>a b. None"
            "Some (ustr ''I use scikit-learn and python'')" None] h1 h2
  have "ustr ''scikit-learn'' \<notin> set (found_skills (calculate_match unicode_excerpt exact_numerics
         (\<lambda>a b. None) (Some (ustr ''I use scikit-learn and python'')) None
         (Some (ustr ''Python, Scikit-learn''))))
   \<and> ustr ''scikit-learn'' \<in> missing_skills (calculate_match unicode_excerpt exact_numerics
         (\<lambda>a b. None) (Some (ustr ''I use scikit-learn and python'')) None
         (Some (ustr ''Python, Scikit-learn'')))" by blast
  with python_unicode_excerpt h1 h2 e show ?thesis by blast
qed

lemma skills_match_eq:
  "skills_match (calculate_match U N tfidf_cosine cv jd_text (Some req))
     = (if skills_list_of U req = [] then 0
        else round2 N Python_float (fmul N
               (skills_match_fraction N
                  (find_skills U (skills_list_of U req)
                     (sub_punct_space U (str_lower U (or_empty cv))))
                  (skills_list_of U req)) 100))"
  by (simp add: calculate_match_def match_body_def Let_def)

lemma found_missing_partition:
  "set (found_skills (calculate_match U N tfidf_cosine cv jd_text (Some req)))
     \<inter> missing_skills (calculate_match U N tfidf_cosine cv jd_text (Some req)) = {}
   \<and> set (found_skills (calculate_match U N tfidf_cosine cv jd_text (Some req)))
     \<union> missing_skills (calculate_match U N tfidf_cosine cv jd_text (Some req))
     = set (skills_list_of U req)"
  unfolding found_skills_eq missing_skills_eq using set_find_skills by blast

lemma no_entry_no_skills:
  assumes "skills_list_of U req = []"
  shows "skills_match (calculate_match U N tfidf_cosine cv jd_text (Some req)) = 0
         \<and> found_skills (calculate_match U N tfidf_cosine cv jd_text (Some req)) = []
         \<and> missing_skills (calculate_match U N tfidf_cosine cv jd_text (Some req)) = {}"
  unfolding found_skills_eq missing_skills_eq skills_match_eq using assms
  by (simp add: find_skills_def)

text \<open>
  Claim C7. The required skills \<^verbatim>\<open>!!!\<close> yield no non-empty token after splitting and
  normalising, yet against the candidate text \<^verbatim>\<open>a\<close> the skills score is 100: the entry
  is not blank, so it passes the filter, it is normalised to the empty token, and
  \<^verbatim>\<open>\b\b\<close> matches at the start of a text that begins with a word character.
  The score is 0, and nothing found or missing, when the list of tokens itself is empty.
\<close>

theorem punctuation_entry_scores_full_match:
  assumes "python_unicode U" and "ieee_rounding N"
  shows "map (normalize_skill U) (split_comma (ustr ''!!!'')) = [[]]
   \<and> skills_list_of U (ustr ''!!!'') = [[]]
   \<and> skills_match (calculate_match U N tfidf_cosine (Some (ustr ''a'')) jd_text
        (Some (ustr ''!!!''))) = 100
   \<and> found_skills (calculate_match U N tfidf_cosine (Some (ustr ''a'')) jd_text
        (Some (ustr ''!!!''))) = [[]]
   \<and> missing_skills (calculate_match U N tfidf_cosine (Some (ustr ''a'')) jd_text
        (Some (ustr ''!!!''))) = {}
   \<and> (skills_list_of U req = [] \<longrightarrow>
        skills_match (calculate_match U N tfidf_cosine cv jd_text (Some req)) = 0
        \<and> found_skills (calculate_match U N tfidf_cosine cv jd_text (Some req)) = []
        \<and> missing_skills (calculate_match U N tfidf_cosine cv jd_text (Some req)) = {})"
proof -
  note U = assms(1) and N = assms(2)
  note ev = eval_strings ascii_space[OF U] ascii_word[OF U] ascii_lower[OF U]
  have 1: "map (normalize_skill U) (split_comma (ustr ''!!!'')) = [[]]"
    by (simp add: ev)
  have 2: "skills_list_of U (ustr ''!!!'') = [[]]"
    by (simp add: skills_list_of_def ev)
  have c: "sub_punct_space U (str_lower U (or_empty (Some (ustr ''a'')))) = ustr ''a''"
    by (simp add: or_empty_def ev)
  have w: "is_word U 97" using ascii_word[OF U, of 97] by simp
  have f: "find_skills U [[]] (ustr ''a'') = [[]]"
    using w by (simp add: find_skills_def search_whole_word_def match_here_def word_opt_def
        first_opt_def ustr_def)
  have 4: "found_skills (calculate_match U N tfidf_cosine (Some (ustr ''a'')) jd_text
        (Some (ustr ''!!!''))) = [[]]"
    unfolding found_skills_eq 2 c by (rule f)
  have 5: "missing_skills (calculate_match U N tfidf_cosine (Some (ustr ''a'')) jd_text
        (Some (ustr ''!!!''))) = {}"
    unfolding missing_skills_eq 2 c f by simp
  have 3: "skills_match (calculate_match U N tfidf_cosine (Some (ustr ''a'')) jd_text
        (Some (ustr ''!!!''))) = 100"
    unfolding skills_match_eq 2 c f
    by (simp add: skills_match_fraction_def fdiv_def fmul_def fl_1[OF N] fl_100[OF N]
        round2_100[OF N])
  from 1 2 3 4 5 no_entry_no_skills show ?thesis by blast
qed

theorem punctuation_entry_scores_full_match_witness:
  "python_unicode unicode_excerpt \<and> ieee_rounding exact_numerics
   \<and> skills_match (calculate_match unicode_excerpt exact_numerics (\<lambda>a b. None)
        (Some (ustr ''a'')) (Some []) (Some (ustr ''!!!''))) = 100
   \<and> total_score (calculate_match unicode_excerpt exact_numerics (\<lambda>a b. None)
        (Some (ustr ''a'')) (Some []) (Some (ustr ''!!!''))) = 60
   \<and> skills_list_of unicode_excerpt (ustr '' , '') = []
   \<and> skills_match (calculate_match unicode_excerpt exact_numerics (\<lambda>a b. None)
        (Some (ustr ''a'')) (Some []) (Some (ustr '' , ''))) = 0"
proof -
  have e: "total_score (calculate_match unicode_excerpt exact_numerics (\<lambda>a b. None)
        (Some (ustr ''a'')) (Some []) (Some (ustr ''!!!''))) = 60"
    by (simp add: eval_match eval_excerpt eval_exact)
  have h: "skills_list_of unicode_excerpt (ustr '' , '') = []"
    by (simp add: skills_list_of_def eval_excerpt)
  note t = punctuation_entry_scores_full_match[OF python_unicode_excerpt ieee_rounding_exact,
      of "\<lambda>a b. None" "Some []" "ustr '' , ''" "Some (ustr ''a'')"]
  from t h have "skills_match (calculate_match unicode_excerpt exact_numerics (\<lambda>a b. None)
        (Some (ustr ''a'')) (Some []) (Some (ustr ''!!!''))) = 100"
    and "skills_match (calculate_match unicode_excerpt exact_numerics (\<lambda>a b. None)
        (Some (ustr ''a'')) (Some []) (Some (ustr '' , ''))) = 0"
    by blast+
  with python_unicode_excerpt ieee_rounding_exact e h show ?thesis by blast
qed

text \<open>
  Claim C2. The found and the missing skills are disjoint and together they are the
  tokens of the list \<^verbatim>\<open>skills_list\<close>; that list can hold the empty token.  For the
  required skills \<^verbatim>\<open>a, !!!\<close> the normalised non-empty tokens are \<^verbatim>\<open>a\<close> alone, yet
  against the candidate text \<^verbatim>\<open>a\<close> the found skills are \<^verbatim>\<open>a\<close> and the empty token,
  shown as \<^verbatim>\<open>a, \<close>.
\<close>

theorem empty_token_among_found_skills:
  assumes "python_unicode U"
  shows "filter (\<lambda>t. t \<noteq> []) (map (normalize_skill U) (split_comma (ustr ''a, !!!''))) = [ustr ''a'']
   \<and> found_skills (calculate_match U N tfidf_cosine (Some (ustr ''a'')) jd_text
        (Some (ustr ''a, !!!''))) = [ustr ''a'', []]
   \<and> missing_skills (calculate_match U N tfidf_cosine (Some (ustr ''a'')) jd_text
        (Some (ustr ''a, !!!''))) = {}
   \<and> comma_join (found_skills (calculate_match U N tfidf_cosine (Some (ustr ''a'')) jd_text
        (Some (ustr ''a, !!!'')))) = ustr ''a, ''
   \<and> set (found_skills (calculate_match U N tfidf_cosine (Some (ustr ''a'')) jd_text
        (Some (ustr ''a, !!!''))))
      \<union> missing_skills (calculate_match U N tfidf_cosine (Some (ustr ''a'')) jd_text
        (Some (ustr ''a, !!!'')))
      \<noteq> set (filter (\<lambda>t. t \<noteq> []) (map (normalize_skill U) (split_comma (ustr ''a, !!!''))))
   \<and> set (found_skills (calculate_match U N tfidf_cosine cv jd_text (Some req)))
       \<inter> missing_skills (calculate_match U N tfidf_cosine cv jd_text (Some req)) = {}
   \<and> set (found_skills (calculate_match U N tfidf_cosine cv jd_text (Some req)))
       \<union> missing_skills (calculate_match U N tfidf_cosine cv jd_text (Some req))
       = set (skills_list_of U req)"
proof -
  note U = assms
  note ev = eval_strings ascii_space[OF U] ascii_word[OF U] ascii_lower[OF U]
  let ?r = "calculate_match U N tfidf_cosine (Some (ustr ''a'')) jd_text (Some (ustr ''a, !!!''))"
  have 1: "filter (\<lambda>t. t \<noteq> []) (map (normalize_skill U) (split_comma (ustr ''a, !!!'')))
             = [ustr ''a'']"
    by (simp add: ev)
  have s: "skills_list_of U (ustr ''a, !!!'') = [ustr ''a'', []]"
    by (simp add: skills_list_of_def ev)
  have c: "sub_punct_space U (str_lower U (or_empty (Some (ustr ''a'')))) = ustr ''a''"
    by (simp add: or_empty_def ev)
  have w: "is_word U 97" using ascii_word[OF U, of 97] by simp
  have f: "find_skills U [ustr ''a'', []] (ustr ''a'') = [ustr ''a'', []]"
    using w by (simp add: find_skills_def search_whole_word_def match_here_def word_opt_def
        first_opt_def ustr_def)
  have 2: "found_skills ?r = [ustr ''a'', []]"
    unfolding found_skills_eq s c by (rule f)
  have 3: "missing_skills ?r = {}"
    unfolding missing_skills_eq s c f by simp
  have 4: "comma_join (found_skills ?r) = ustr ''a, ''"
    unfolding 2 by (simp add: ustr_def)
  have 5: "set (found_skills ?r) \<union> missing_skills ?r
      \<noteq> set (filter (\<lambda>t. t \<noteq> []) (map (normalize_skill U) (split_comma (ustr ''a, !!!''))))"
    unfolding 1 2 3 by (simp add: ustr_def)
  from 1 2 3 4 5 found_missing_partition[of U N tfidf_cosine cv jd_text req]
  show ?thesis by blast
qed

theorem empty_token_among_found_skills_witness:
  "python_unicode unicode_excerpt
   \<and> found_skills (calculate_match unicode_excerpt exact_numerics (\<lambda>a b. None)
        (Some (ustr ''a'')) None (Some (ustr ''a, !!!''))) = [ustr ''a'', []]
   \<and> skills_list_of unicode_excerpt (ustr ''a, ,b'') = [ustr ''a'', ustr ''b'']
   \<and> set (found_skills (calculate_match unicode_excerpt exact_numerics (\<lambda>a b. None)
        (Some (ustr ''a'')) None (Some (ustr ''a, ,b''))))
      \<union> missing_skills (calculate_match unicode_excerpt exact_numerics (\<lambda>a b. None)
        (Some (ustr ''a'')) None (Some (ustr ''a, ,b'')))
      = {ustr ''a'', ustr ''b''}"
proof -
  have h: "skills_list_of unicode_excerpt (ustr ''a, ,b'') = [ustr ''a'', ustr ''b'']"
    by (simp add: skills_list_of_def eval_excerpt)
  note t = empty_token_among_found_skills[OF python_unicode_excerpt,
      of exact_numerics "\<lambda>a b. None" None "Some (ustr ''a'')" "ustr ''a, ,b''"]
  from t have "found_skills (calculate_match unicode_excerpt exact_numerics (\<lambda>a b. None)
        (Some (ustr ''a'')) None (Some (ustr ''a, !!!''))) = [ustr ''a'', []]"
    and "set (found_skills (calculate_match unicode_excerpt exact_numerics (\<lambda>a b. None)
        (Some (ustr ''a'')) None (Some (ustr ''a, ,b''))))
      \<union> missing_skills (calculate_match unicode_excerpt exact_numerics (\<lambda>a b. None)
        (Some (ustr ''a'')) None (Some (ustr ''a, ,b'')))
      = set (skills_list_of unicode_excerpt (ustr ''a, ,b''))"
    by blast+
  with python_unicode_excerpt h show ?thesis by simp
qed

subsection \<open>Repeated skills\<close>








subsection \<open>Ranking\<close>

lemma sort_reverse_sorted: "sorted_wrt (\<lambda>a b. key b \<le> key a) (sort_reverse key xs)"
proof -
  have "sorted (map key (sort_key key (rev xs)))" by (rule sorted_sort_key)
  then have "sorted_wrt (\<lambda>a b. key a \<le> key b) (sort_key key (rev xs))"
    by (simp add: sorted_wrt_map)
  then show ?thesis unfolding sort_reverse_def by (simp add: sorted_wrt_rev)
qed

lemma sort_reverse_mset: "mset (sort_reverse key xs) = mset xs"
  by (simp add: sort_reverse_def)

lemma sort_reverse_set: "set (sort_reverse key xs) = set xs"
  by (simp add: sort_reverse_def)

lemma sort_reverse_stable:
  "filter (\<lambda>y. key y = k) (sort_reverse key xs) = filter (\<lambda>y. key y = k) xs"
proof -
  have "filter (\<lambda>y. key y = k) (sort_reverse key xs)
          = rev (filter (\<lambda>y. key y = k) (sort_key key (rev xs)))"
    by (simp add: sort_reverse_def rev_filter)
  also have "\<dots> = rev (filter (\<lambda>y. key y = k) (rev xs))"
    by (simp only: sort_key_stable)
  also have "\<dots> = filter (\<lambda>y. key y = k) xs" by (simp add: rev_filter)
  finally show ?thesis .
qed

lemma sort_reverse_Nil_iff: "sort_reverse key xs = [] \<longleftrightarrow> xs = []"
  using sort_reverse_set[of key xs] by (metis set_empty)

lemma sort_reverse_hd:
  assumes "xs \<noteq> []"
  shows "hd (sort_reverse key xs) \<in> set xs
         \<and> (\<forall>c\<in>set xs. key c \<le> key (hd (sort_reverse key xs)))
         \<and> hd (sort_reverse key xs)
             = hd (filter (\<lambda>c. key c = key (hd (sort_reverse key xs))) xs)"
proof -
  let ?r = "sort_reverse key xs"
  from assms have "?r \<noteq> []" by (simp add: sort_reverse_Nil_iff)
  then obtain b rs where r: "?r = b # rs" by (cases ?r) auto
  have s: "sorted_wrt (\<lambda>a b. key b \<le> key a) (b # rs)"
    using sort_reverse_sorted[of key xs] unfolding r .
  have set: "set xs = insert b (set rs)" using sort_reverse_set[of key xs] unfolding r by simp
  have 1: "b \<in> set xs" using set by simp
  have 2: "\<forall>c\<in>set xs. key c \<le> key b" using s set by auto
  have "filter (\<lambda>c. key c = key b) xs = filter (\<lambda>c. key c = key b) (b # rs)"
    using sort_reverse_stable[of key "key b" xs] unfolding r by simp
  then have 3: "hd (filter (\<lambda>c. key c = key b) xs) = b" by simp
  from 1 2 3 show ?thesis unfolding r by simp
qed

lemma analyze_cvs_page:
  "fst (analyze_cvs U N tfidf_cosine L job files)
     = (if candidates (process_uploads U N tfidf_cosine L job files) = [] then Analyze_form
        else Analysis_results (rank (candidates (process_uploads U N tfidf_cosine L job files)))
               (Some (hd (rank (candidates (process_uploads U N tfidf_cosine L job files))))))"
proof (cases "candidates (process_uploads U N tfidf_cosine L job files) = []")
  case True then show ?thesis by (simp add: analyze_cvs_def Let_def)
next
  case False
  then have "rank (candidates (process_uploads U N tfidf_cosine L job files)) \<noteq> []"
    by (simp add: rank_def sort_reverse_Nil_iff)
  then have "best_candidate (rank (candidates (process_uploads U N tfidf_cosine L job files)))
     = Some (hd (rank (candidates (process_uploads U N tfidf_cosine L job files))))"
    by (cases "rank (candidates (process_uploads U N tfidf_cosine L job files))")
       (auto simp: best_candidate_def)
  with False show ?thesis by (simp add: analyze_cvs_def Let_def)
qed

text \<open>
  Claim C4. The ranked list is a rearrangement of the batch in non-increasing order of
  \<open>total_score\<close>, and the candidates with one and the same score stand in it in the order
  in which the batch had them.  The best candidate is the first of the ranked list: a
  candidate of the batch of the highest score, and the earliest of the batch with that
  score; there is none when the batch is empty.  When the uploads produced a candidate,
  the page that \<^verbatim>\<open>analyze_cvs\<close> renders shows the ranked list of the candidates and the
  first of it as the best; otherwise it is the upload form, with no ranking at all.
\<close>

theorem ranking_descending_stable_best_first:
  "sorted_wrt (\<lambda>a b. total_score (analysis b) \<le> total_score (analysis a)) (rank cs)
   \<and> mset (rank cs) = mset cs
   \<and> filter (\<lambda>c. total_score (analysis c) = k) (rank cs)
       = filter (\<lambda>c. total_score (analysis c) = k) cs
   \<and> best_candidate (rank []) = None
   \<and> (cs \<noteq> [] \<longrightarrow>
        best_candidate (rank cs) = Some (hd (rank cs))
        \<and> hd (rank cs) \<in> set cs
        \<and> (\<forall>c\<in>set cs. total_score (analysis c) \<le> total_score (analysis (hd (rank cs))))
        \<and> hd (rank cs)
            = hd (filter (\<lambda>c. total_score (analysis c) = total_score (analysis (hd (rank cs)))) cs))
   \<and> fst (analyze_cvs U N tfidf_cosine L job files)
       = (if candidates (process_uploads U N tfidf_cosine L job files) = [] then Analyze_form
          else Analysis_results (rank (candidates (process_uploads U N tfidf_cosine L job files)))
                 (Some (hd (rank (candidates (process_uploads U N tfidf_cosine L job files))))))"
proof -
  let ?key = "\<lambda>x. total_score (analysis x)"
  have 1: "sorted_wrt (\<lambda>a b. ?key b \<le> ?key a) (rank cs)"
    unfolding rank_def by (rule sort_reverse_sorted)
  have 2: "mset (rank cs) = mset cs" unfolding rank_def by (rule sort_reverse_mset)
  have 3: "filter (\<lambda>c. ?key c = k) (rank cs) = filter (\<lambda>c. ?key c = k) cs"
    unfolding rank_def by (rule sort_reverse_stable)
  have 4: "best_candidate (rank []) = None"
    by (simp add: rank_def sort_reverse_def best_candidate_def)
  have 5: "best_candidate (rank cs) = Some (hd (rank cs))
        \<and> hd (rank cs) \<in> set cs
        \<and> (\<forall>c\<in>set cs. ?key c \<le> ?key (hd (rank cs)))
        \<and> hd (rank cs) = hd (filter (\<lambda>c. ?key c = ?key (hd (rank cs))) cs)"
    if ne: "cs \<noteq> []"
  proof -
    from ne have "rank cs \<noteq> []" by (simp add: rank_def sort_reverse_Nil_iff)
    then have "best_candidate (rank cs) = Some (hd (rank cs))"
      by (cases "rank cs") (auto simp: best_candidate_def)
    then show ?thesis using sort_reverse_hd[OF ne, of ?key] unfolding rank_def by blast
  qed
  from 1 2 3 4 5 analyze_cvs_page[of U N tfidf_cosine L job files]
  show ?thesis by blast
qed

subsection \<open>The batch\<close>





subsection \<open>Extraction\<close>



lemma pdf_failure_message:
  assumes "magic_from_file L f = Inr mime_pdf" "pdfminer_extract_text L f = Inl msg"
  shows "extract_text_from_file U L f
           = Inl (Exception (ustr ''File processing error: Failed to extract PDF text: '' @ msg))"
  using assms
  by (simp add: extract_text_from_file_def extract_body_def extract_text_from_pdf_def ustr_def)




lemmas eval_batch =
  analyze_cvs_def process_uploads_def process_upload_def allowed_file_def rsplit_dot_1_def
  saved_file_def stub_libs_def extract_text_from_file_def extract_body_def
  extract_text_from_pdf_def extract_text_from_docx_def mime_pdf_def mime_docx_def
  preview_of_def python_job_def rank_def sort_reverse_def best_candidate_def

theorem ranking_descending_stable_best_first_witness:
  "[candidate_scoring (ustr ''a'') 40, candidate_scoring (ustr ''b'') 90,
    candidate_scoring (ustr ''c'') 90, candidate_scoring (ustr ''d'') 10] \<noteq> []
   \<and> rank [candidate_scoring (ustr ''a'') 40, candidate_scoring (ustr ''b'') 90,
            candidate_scoring (ustr ''c'') 90, candidate_scoring (ustr ''d'') 10]
      = [candidate_scoring (ustr ''b'') 90, candidate_scoring (ustr ''c'') 90,
         candidate_scoring (ustr ''a'') 40, candidate_scoring (ustr ''d'') 10]
   \<and> best_candidate (rank [candidate_scoring (ustr ''a'') 40, candidate_scoring (ustr ''b'') 90,
            candidate_scoring (ustr ''c'') 90, candidate_scoring (ustr ''d'') 10])
      = Some (candidate_scoring (ustr ''b'') 90)
   \<and> map (\<lambda>c. (filename c, total_score (analysis c)))
        (page_candidates (fst (analyze_cvs unicode_excerpt exact_numerics (\<lambda>a b. None) stub_libs
           python_job
           [\<lparr> upload_filename = ustr ''cv.pdf'', upload_bytes = ustr ''%PDFjava'' \<rparr>,
            \<lparr> upload_filename = ustr ''b.PDF'', upload_bytes = ustr ''%PDFPython!'' \<rparr>])))
      = [(ustr ''b.PDF'', 60), (ustr ''cv.pdf'', 0)]"
proof -
  let ?cs = "[candidate_scoring (ustr ''a'') 40, candidate_scoring (ustr ''b'') 90,
    candidate_scoring (ustr ''c'') 90, candidate_scoring (ustr ''d'') 10]"
  have ne: "?cs \<noteq> []" by simp
  have r: "rank ?cs = [candidate_scoring (ustr ''b'') 90, candidate_scoring (ustr ''c'') 90,
         candidate_scoring (ustr ''a'') 40, candidate_scoring (ustr ''d'') 10]"
    by (simp add: rank_def sort_reverse_def candidate_scoring_def zero_result_def)
  have a: "map (\<lambda>c. (filename c, total_score (analysis c)))
        (page_candidates (fst (analyze_cvs unicode_excerpt exact_numerics (\<lambda>a b. None) stub_libs
           python_job
           [\<lparr> upload_filename = ustr ''cv.pdf'', upload_bytes = ustr ''%PDFjava'' \<rparr>,
            \<lparr> upload_filename = ustr ''b.PDF'', upload_bytes = ustr ''%PDFPython!'' \<rparr>])))
      = [(ustr ''b.PDF'', 60), (ustr ''cv.pdf'', 0)]"
    by (simp add: eval_batch eval_match eval_excerpt eval_exact)
  from ranking_descending_stable_best_first[where cs = ?cs] ne
  have "best_candidate (rank ?cs) = Some (hd (rank ?cs))" by blast
  then have b: "best_candidate (rank ?cs) = Some (candidate_scoring (ustr ''b'') 90)"
    unfolding r by simp
  from ne r b a show ?thesis by blast
qed




subsection \<open>Binary64 evaluation\<close>

lemma norm_exp_numeral:
  "norm_exp (numeral k) x =
     (if 2 \<le> x then norm_exp (pred_numeral k) (x / 2) + 1
      else if x < 1 then norm_exp (pred_numeral k) (x * 2) - 1
      else 0)"
  by (simp add: numeral_eq_Suc)

lemmas eval_binary64 =
  binary64_def binary64_round_def norm_exp_numeral pow2_def round_half_even_def Let_def

lemma fl_six_tenths: "binary64_round (6 / 10) = 5404319552844595 / 2 ^ 53"
  by (simp add: eval_binary64)

lemma fl_four_tenths: "binary64_round (4 / 10) = 3602879701896397 / 2 ^ 53"
  by (simp add: eval_binary64)

lemma fl_17_32: "binary64_round (17 / 32) = 17 / 32"
  by (simp add: eval_binary64)

lemma fl_product: "binary64_round (17 / 32 * (5404319552844595 / 2 ^ 53)) = 5742089524897382 / 2 ^ 54"
  by (simp add: eval_binary64)

lemma fl_scaled: "binary64_round (5742089524897382 / 2 ^ 54 * 100) = 8972014882652159 / 2 ^ 48"
  by (simp add: eval_binary64)

lemma fl_same: "binary64_round (5742089524897382 / 2 ^ 54) = 5742089524897382 / 2 ^ 54"
  by (simp add: eval_binary64)

lemma weighted_total_17_32:
  "weighted_total binary64 (fdiv binary64 17 32) 0 = 8972014882652159 / 2 ^ 48"
proof -
  have f: "fl binary64 = binary64_round" by (simp add: binary64_def)
  have z: "binary64_round 0 = 0" by (simp add: binary64_round_def)
  show ?thesis
    unfolding weighted_total_def fdiv_def fmul_def fadd_def f
    unfolding fl_17_32 fl_six_tenths fl_four_tenths
    unfolding fl_product
    by (simp only: mult_zero_left z add_0_right fl_same fl_scaled)
qed

lemma round2_code: "round2 binary64 Python_float (8972014882652159 / 2 ^ 48) = 8970607507768607 / 2 ^ 48"
  by (simp add: eval_binary64)

lemma round2_formula: "round2 binary64 Python_float (17 / 32 * 60 + 0 * 40) = 8973422257535713 / 2 ^ 48"
  by (simp add: eval_binary64)

lemma total_score_eq:
  "total_score (calculate_match U N tfidf_cosine cv jd_text (Some req))
     = round2 N (kind_of (jd_similarity U tfidf_cosine cv jd_text))
         (weighted_total N (skills_fraction U N cv req) (jd_fraction U tfidf_cosine cv jd_text))"
  by (simp add: calculate_match_def match_body_def Let_def skills_fraction_def jd_fraction_def
      jd_similarity_def cleaned_def)

lemma letters_skills_list:
  "skills_list_of unicode_excerpt
     (ustr ''a,b,c,d,e,f,g,h,i,j,k,l,m,n,o,p,q,r,s,t,u,v,w,x,y,z,0,1,2,3,4,5'')
   = [[97], [98], [99], [100], [101], [102], [103], [104], [105], [106], [107], [108], [109],
      [110], [111], [112], [113], [114], [115], [116], [117], [118], [119], [120], [121], [122],
      [48], [49], [50], [51], [52], [53]]"
  by (simp add: skills_list_of_def eval_excerpt)

lemma letters_cleaned:
  "cleaned unicode_excerpt (Some (ustr ''a b c d e f g h i j k l m n o p q''))
   = [97, 32, 98, 32, 99, 32, 100, 32, 101, 32, 102, 32, 103, 32, 104, 32, 105, 32, 106, 32,
      107, 32, 108, 32, 109, 32, 110, 32, 111, 32, 112, 32, 113]"
  by (simp add: cleaned_def or_empty_def eval_excerpt)

lemma letters_found:
  "find_skills unicode_excerpt
     [[97], [98], [99], [100], [101], [102], [103], [104], [105], [106], [107], [108], [109],
      [110], [111], [112], [113], [114], [115], [116], [117], [118], [119], [120], [121], [122],
      [48], [49], [50], [51], [52], [53]]
     [97, 32, 98, 32, 99, 32, 100, 32, 101, 32, 102, 32, 103, 32, 104, 32, 105, 32, 106, 32,
      107, 32, 108, 32, 109, 32, 110, 32, 111, 32, 112, 32, 113]
   = [[97], [98], [99], [100], [101], [102], [103], [104], [105], [106], [107], [108], [109],
      [110], [111], [112], [113]]"
  by (simp add: find_skills_def search_whole_word_def match_here_def word_opt_def first_opt_def
      is_word_def unicode_excerpt_def)

lemma letters_fraction:
  "skills_fraction unicode_excerpt binary64
     (Some (ustr ''a b c d e f g h i j k l m n o p q''))
     (ustr ''a,b,c,d,e,f,g,h,i,j,k,l,m,n,o,p,q,r,s,t,u,v,w,x,y,z,0,1,2,3,4,5'')
   = fdiv binary64 17 32"
  unfolding skills_fraction_def letters_skills_list letters_cleaned letters_found
  by (simp add: skills_match_fraction_def)

lemma letters_similarity:
  "jd_similarity unicode_excerpt (\<lambda>a b. None)
     (Some (ustr ''a b c d e f g h i j k l m n o p q'')) None = None"
  by (simp add: jd_similarity_def similarity_def)

text \<open>
  Claim C1, as the specification states it, fails in binary64 arithmetic.  Of the 32
  required skills \<^verbatim>\<open>a\<close> to \<^verbatim>\<open>z\<close> and \<^verbatim>\<open>0\<close> to \<^verbatim>\<open>5\<close>, the candidate text
  \<^verbatim>\<open>a b c d e f g h i j k l m n o p q\<close> holds 17, and there is no job description: the
  fractions are 17/32 and 0.  The code computes \<^verbatim>\<open>(17/32 * 0.6 + 0 * 0.4) * 100\<close>, which
  is 31.874999999999996, and returns 31.87; \<^verbatim>\<open>17/32 * 60 + 0 * 40\<close> is 31.875 and rounds
  to 31.88, in binary64 as in exact arithmetic.
\<close>

theorem total_score_not_the_rounded_weighted_sum:
  "skills_fraction unicode_excerpt binary64
       (Some (ustr ''a b c d e f g h i j k l m n o p q''))
       (ustr ''a,b,c,d,e,f,g,h,i,j,k,l,m,n,o,p,q,r,s,t,u,v,w,x,y,z,0,1,2,3,4,5'') = 17 / 32
   \<and> jd_fraction unicode_excerpt (\<lambda>a b. None)
       (Some (ustr ''a b c d e f g h i j k l m n o p q'')) None = 0
   \<and> total_score (calculate_match unicode_excerpt binary64 (\<lambda>a b. None)
       (Some (ustr ''a b c d e f g h i j k l m n o p q'')) None
       (Some (ustr ''a,b,c,d,e,f,g,h,i,j,k,l,m,n,o,p,q,r,s,t,u,v,w,x,y,z,0,1,2,3,4,5'')))
     = 8970607507768607 / 2 ^ 48
   \<and> fl binary64 (3187 / 100) = 8970607507768607 / 2 ^ 48
   \<and> round2 binary64 Python_float (17 / 32 * 60 + 0 * 40) = 8973422257535713 / 2 ^ 48
   \<and> fl binary64 (3188 / 100) = 8973422257535713 / 2 ^ 48
   \<and> round2 exact_numerics Python_float (17 / 32 * 60 + 0 * 40) = 3188 / 100"
proof -
  let ?cv = "Some (ustr ''a b c d e f g h i j k l m n o p q'')"
  let ?req = "ustr ''a,b,c,d,e,f,g,h,i,j,k,l,m,n,o,p,q,r,s,t,u,v,w,x,y,z,0,1,2,3,4,5''"
  have f: "fdiv binary64 17 32 = 17 / 32"
    using fl_17_32 by (simp add: fdiv_def binary64_def)
  have 1: "skills_fraction unicode_excerpt binary64 ?cv ?req = 17 / 32"
    unfolding letters_fraction by (rule f)
  have 2: "jd_fraction unicode_excerpt (\<lambda>a b. None) ?cv None = 0"
    unfolding jd_fraction_def letters_similarity by (simp add: jd_match_fraction_def)
  have 3: "total_score (calculate_match unicode_excerpt binary64 (\<lambda>a b. None) ?cv None (Some ?req))
     = 8970607507768607 / 2 ^ 48"
    unfolding total_score_eq letters_fraction 2 letters_similarity weighted_total_17_32
    unfolding kind_of_def option.case by (rule round2_code)
  have 4: "fl binary64 (3187 / 100) = 8970607507768607 / 2 ^ 48"
    by (simp add: eval_binary64)
  have 5: "fl binary64 (3188 / 100) = 8973422257535713 / 2 ^ 48"
    by (simp add: eval_binary64)
  have 6: "round2 exact_numerics Python_float (17 / 32 * 60 + 0 * 40) = 3188 / 100"
    by (simp add: eval_exact)
  from 1 2 3 4 5 6 round2_formula show ?thesis by blast
qed

text \<open>
  Claim C1, amended.  \<open>total_score\<close> is \<^verbatim>\<open>round((sf * 0.6 + jf * 0.4) * 100, 2)\<close> with
  every operation and both literals rounded to binary64, where \<open>sf\<close> and \<open>jf\<close> are the
  fractions that, multiplied by 100 and rounded to two places, are reported as
  \<open>skills_match\<close> and \<open>jd_match\<close>.  Where the arithmetic is exact this is
  \<^verbatim>\<open>round(sf * 60 + jf * 40, 2)\<close>.  \<open>sf\<close> lies between 0 and 1, and \<open>jf\<close> between 0 and
  what the similarity library returns at most.
\<close>

theorem total_score_rounds_weighted_fractions:
  assumes "ieee_rounding N" and "unit_valued tfidf_cosine"
  shows "total_score (calculate_match U N tfidf_cosine cv jd_text (Some req))
       = round2 N (kind_of (jd_similarity U tfidf_cosine cv jd_text))
           (fl N (fl N (fl N (skills_fraction U N cv req * fl N (6 / 10))
                        + fl N (jd_fraction U tfidf_cosine cv jd_text * fl N (4 / 10))) * 100))
   \<and> (fl N = (\<lambda>x. x) \<longrightarrow>
        total_score (calculate_match U N tfidf_cosine cv jd_text (Some req))
          = round2 N (kind_of (jd_similarity U tfidf_cosine cv jd_text))
              (skills_fraction U N cv req * 60 + jd_fraction U tfidf_cosine cv jd_text * 40))
   \<and> skills_match (calculate_match U N tfidf_cosine cv jd_text (Some req))
       = (if skills_list_of U req = [] then 0
          else round2 N Python_float (fl N (skills_fraction U N cv req * 100)))
   \<and> jd_match (calculate_match U N tfidf_cosine cv jd_text (Some req))
       = (if jd_similarity U tfidf_cosine cv jd_text = None then 0
          else round2 N Numpy_float (fl N (jd_fraction U tfidf_cosine cv jd_text * 100)))
   \<and> 0 \<le> skills_fraction U N cv req \<and> skills_fraction U N cv req \<le> 1
   \<and> 0 \<le> jd_fraction U tfidf_cosine cv jd_text
   \<and> jd_fraction U tfidf_cosine cv jd_text \<le> 1 + 1 / 2 ^ 20"
proof -
  note N = assms(1) and tc = assms(2)
  let ?r = "calculate_match U N tfidf_cosine cv jd_text (Some req)"
  let ?sf = "skills_fraction U N cv req" and ?jf = "jd_fraction U tfidf_cosine cv jd_text"
  let ?kd = "kind_of (jd_similarity U tfidf_cosine cv jd_text)"
  have 1: "total_score ?r = round2 N ?kd
           (fl N (fl N (fl N (?sf * fl N (6 / 10)) + fl N (?jf * fl N (4 / 10))) * 100))"
    unfolding total_score_eq by (simp add: weighted_total_def fmul_def fadd_def)
  have 2: "total_score ?r = round2 N ?kd (?sf * 60 + ?jf * 40)" if "fl N = (\<lambda>x. x)"
  proof -
    have "(?sf * (6 / 10) + ?jf * (4 / 10)) * 100 = ?sf * 60 + ?jf * 40"
      by (simp add: algebra_simps)
    then show ?thesis unfolding 1 that by (simp add: mult.commute)
  qed
  have 3: "skills_match ?r = (if skills_list_of U req = [] then 0
          else round2 N Python_float (fl N (?sf * 100)))"
    unfolding skills_match_eq by (simp add: skills_fraction_def cleaned_def fmul_def)
  have 4: "jd_match ?r = (if jd_similarity U tfidf_cosine cv jd_text = None then 0
          else round2 N Numpy_float (fl N (?jf * 100)))"
    unfolding jd_match_eq
    by (simp add: jd_fraction_def jd_similarity_def cleaned_def jd_match_fraction_def fmul_def
        split: option.splits)
  have 5: "0 \<le> ?sf \<and> ?sf \<le> 1"
    unfolding skills_fraction_def by (rule skills_match_fraction_range[OF N])
  have 6: "0 \<le> ?jf \<and> ?jf \<le> 1 + 1 / 2 ^ 20"
    unfolding jd_fraction_def jd_similarity_def by (rule jd_match_fraction_range[OF tc])
  from 1 2 3 4 5 6 show ?thesis by blast
qed

theorem total_score_rounds_weighted_fractions_witness:
  "ieee_rounding exact_numerics \<and> unit_valued (\<lambda>a b. Some (1 / 4))
   \<and> fl exact_numerics = (\<lambda>x. x)
   \<and> skills_fraction unicode_excerpt exact_numerics (Some (ustr ''Python and SQL''))
        (ustr ''python, java'') = 1 / 2
   \<and> jd_fraction unicode_excerpt (\<lambda>a b. Some (1 / 4)) (Some (ustr ''Python and SQL''))
        (Some (ustr ''python developer'')) = 1 / 4
   \<and> total_score (calculate_match unicode_excerpt exact_numerics (\<lambda>a b. Some (1 / 4))
        (Some (ustr ''Python and SQL'')) (Some (ustr ''python developer''))
        (Some (ustr ''python, java''))) = 40
   \<and> round2 exact_numerics Numpy_float (1 / 2 * 60 + 1 / 4 * 40) = 40"
proof -
  let ?cv = "Some (ustr ''Python and SQL'')" and ?jd = "Some (ustr ''python developer'')"
  let ?req = "ustr ''python, java''"
  have tc: "unit_valued (\<lambda>a b. Some (1 / 4))" by (simp add: unit_valued_def)
  have ex: "fl exact_numerics = (\<lambda>x. x)" by (simp add: exact_numerics_def)
  have sf: "skills_fraction unicode_excerpt exact_numerics ?cv ?req = 1 / 2"
    by (simp add: skills_fraction_def cleaned_def eval_match eval_excerpt eval_exact)
  have sim: "jd_similarity unicode_excerpt (\<lambda>a b. Some (1 / 4)) ?cv ?jd = Some (1 / 4)"
    by (simp add: jd_similarity_def cleaned_def eval_match eval_excerpt)
  have jf: "jd_fraction unicode_excerpt (\<lambda>a b. Some (1 / 4)) ?cv ?jd = 1 / 4"
    unfolding jd_fraction_def sim by (simp add: jd_match_fraction_def)
  have r: "round2 exact_numerics Numpy_float (1 / 2 * 60 + 1 / 4 * 40) = 40"
    by (simp add: eval_exact)
  from total_score_rounds_weighted_fractions[OF ieee_rounding_exact tc,
         where U = unicode_excerpt and cv = ?cv and jd_text = ?jd and req = ?req] ex
  have "total_score (calculate_match unicode_excerpt exact_numerics (\<lambda>a b. Some (1 / 4))
          ?cv ?jd (Some ?req))
      = round2 exact_numerics (kind_of (jd_similarity unicode_excerpt (\<lambda>a b. Some (1 / 4)) ?cv ?jd))
          (skills_fraction unicode_excerpt exact_numerics ?cv ?req * 60
           + jd_fraction unicode_excerpt (\<lambda>a b. Some (1 / 4)) ?cv ?jd * 40)"
    by blast
  then have t: "total_score (calculate_match unicode_excerpt exact_numerics (\<lambda>a b. Some (1 / 4))
          ?cv ?jd (Some ?req)) = 40"
    unfolding sf jf sim using r by (simp add: kind_of_def)
  from ieee_rounding_exact tc ex sf jf t r show ?thesis by blast
qed

end
